theory Spec2Isabelle
  imports Complex_Main
begin

section \<open>Python values and effects shared by the scripts\<close>

text \<open>
  The scripts under \<^verbatim>\<open>generating_synthetic_data/\<close> are thin drivers around
  \<^verbatim>\<open>automarkerlabel.generateSimTrajectories\<close>. That function is imported from the
  parent directory and is not among the source files, so here it is a parameter
  \<open>core\<close> of every driver: an arbitrary function from the keyword arguments of the call
  to either a raised exception or the returned list of tensors.

  An exception is represented by its class. \<open>IndexError\<close> and \<open>ValueError\<close> are the
  ones the drivers themselves can raise (\<^verbatim>\<open>data[0]\<close>, \<^verbatim>\<open>min([])\<close>); \<open>OSError\<close> is what
  \<^verbatim>\<open>os.makedirs\<close> raises when the directory cannot be created (\<^verbatim>\<open>NotADirectoryError\<close>,
  \<^verbatim>\<open>PermissionError\<close> and the like); the next four are the error taxonomy the
  specification gives for the core; \<open>OtherError\<close> stands for every other subclass of
  \<^verbatim>\<open>Exception\<close>. \<open>SystemExit n\<close> (what \<^verbatim>\<open>sys.exit(n)\<close> raises), \<open>KeyboardInterrupt\<close> and
  \<open>OtherBaseException\<close> (\<^verbatim>\<open>GeneratorExit\<close>, or a class the core derives from
  \<^verbatim>\<open>BaseException\<close> directly) are the exceptions that are not subclasses of
  \<^verbatim>\<open>Exception\<close>: a handler \<^verbatim>\<open>except Exception\<close> does not catch them.
\<close>

datatype exn =
    IndexError
  | ValueError
  | OSError
  | ConfigError
  | DataNotFoundError
  | AlignmentError
  | EmptyDatasetError
  | OtherError string
  | SystemExit int
  | KeyboardInterrupt
  | OtherBaseException string

text \<open>\<^verbatim>\<open>isinstance(e, Exception)\<close>.\<close>

fun is_Exception :: "exn \<Rightarrow> bool" where
  "is_Exception (SystemExit n) = False"
| "is_Exception KeyboardInterrupt = False"
| "is_Exception (OtherBaseException c) = False"
| "is_Exception _ = True"

text \<open>A tensor is read by the drivers only through \<^verbatim>\<open>.shape\<close>.\<close>

record tensor =
  shape :: "nat list"

text \<open>The keyword arguments of \<^verbatim>\<open>aml.generateSimTrajectories(...)\<close>.\<close>

record kwargs =
  bodykinpath :: string
  markersetpath :: string
  outputfile :: string
  alignMkR :: string
  alignMkL :: string
  fs :: int
  num_participants :: int
  max_len :: int

type_synonym core = "kwargs \<Rightarrow> exn + tensor list"

text \<open>
  What a run does to the outside world, in program order: lines printed, the call of
  \<^verbatim>\<open>os.makedirs\<close> (whether it succeeds or raises), the prompt of \<^verbatim>\<open>input\<close>, the call of the
  core. \<open>PrintError e\<close> is \<^verbatim>\<open>print(f"\nERROR during generation: {str(e)}")\<close> and
  \<open>PrintTraceback e\<close> is \<^verbatim>\<open>traceback.print_exc()\<close> in the handler of \<open>e\<close>.
  \<open>UsageError\<close> is the usage message argparse writes when a required option is
  missing, \<open>PrintHelp\<close> the help text it writes for \<^verbatim>\<open>-h\<close> or \<^verbatim>\<open>--help\<close>.
\<close>

datatype event =
    Print string
  | PrintError exn
  | PrintTraceback exn
  | Makedirs string
  | Input string
  | Call kwargs
  | UsageError
  | PrintHelp

text \<open>
  How the process ends: \<^verbatim>\<open>main\<close> returns (exit status 0), the process exits with status
  \<open>n\<close> through \<^verbatim>\<open>sys.exit(n)\<close>, or an exception other than \<^verbatim>\<open>SystemExit\<close> leaves \<^verbatim>\<open>main\<close>
  uncaught (the interpreter prints the traceback and the exit status is not 0).
\<close>

datatype outcome = Returned | SysExit int | Uncaught exn

text \<open>
  An exception that leaves \<^verbatim>\<open>main\<close>: a \<^verbatim>\<open>SystemExit\<close> ends the process with its status,
  any other one is uncaught.
\<close>

fun leaves_main :: "exn \<Rightarrow> outcome" where
  "leaves_main (SystemExit n) = SysExit n"
| "leaves_main e = Uncaught e"

type_synonym run = "event list \<times> outcome"

definition trace :: "run \<Rightarrow> event list" where
  "trace r = fst r"

definition outcome_of :: "run \<Rightarrow> outcome" where
  "outcome_of r = snd r"

text \<open>The calls of the core in a trace, in order.\<close>

fun calls_in :: "event list \<Rightarrow> kwargs list" where
  "calls_in [] = []"
| "calls_in (Call kw # t) = kw # calls_in t"
| "calls_in (_ # t) = calls_in t"

definition core_calls :: "run \<Rightarrow> kwargs list" where
  "core_calls r = calls_in (trace r)"

text \<open>
  The environment of a run: the answers of \<^verbatim>\<open>os.path.exists\<close>, of \<^verbatim>\<open>os.path.abspath\<close>,
  the text of the elapsed time as formatted by \<^verbatim>\<open>{elapsed_time:.1f}\<close> and
  \<^verbatim>\<open>{elapsed_time/60:.1f}\<close> (the clock and the formatting of floats are not
  modelled), and the line the user types at the prompt of the configuration
  template. \<open>makedirs_ok d\<close> says whether \<^verbatim>\<open>os.makedirs(d)\<close> succeeds; when it does not,
  the call raises \<^verbatim>\<open>OSError\<close>. \<^verbatim>\<open>print\<close>, \<^verbatim>\<open>input\<close> and \<^verbatim>\<open>time.time\<close> are taken to return
  normally, and the answers of \<^verbatim>\<open>os.path.exists\<close> not to change during a run.
\<close>

record env =
  path_exists :: "string \<Rightarrow> bool"
  makedirs_ok :: "string \<Rightarrow> bool"
  abspath :: "string \<Rightarrow> string"
  elapsed_s :: string
  elapsed_min :: string
  response :: string

subsection \<open>Library functions\<close>

text \<open>\<^verbatim>\<open>str(n)\<close> for an integer: decimal digits, with a minus sign when negative.\<close>

definition digit_char :: "nat \<Rightarrow> char" where
  "digit_char d = ''0123456789'' ! d"

fun str_nat :: "nat \<Rightarrow> string" where
  "str_nat n = (if n < 10 then [digit_char n] else str_nat (n div 10) @ [digit_char (n mod 10)])"

declare str_nat.simps [simp del]

definition str_int :: "int \<Rightarrow> string" where
  "str_int i = (if i < 0 then CHR ''-'' # str_nat (nat (- i)) else str_nat (nat i))"

text \<open>
  \<^verbatim>\<open>os.path.dirname\<close> (posixpath): the part up to and including the last slash,
  with trailing slashes removed unless it consists of slashes only.
\<close>

definition rstrip_sep :: "string \<Rightarrow> string" where
  "rstrip_sep p = rev (dropWhile (\<lambda>c. c = CHR ''/'') (rev p))"

definition dirname :: "string \<Rightarrow> string" where
  "dirname p =
     (let head = rev (dropWhile (\<lambda>c. c \<noteq> CHR ''/'') (rev p))
      in if head \<noteq> [] \<and> head \<noteq> replicate (length head) (CHR ''/'') then rstrip_sep head
         else head)"

text \<open>\<^verbatim>\<open>xs[i]\<close> for a non-negative literal index: \<^verbatim>\<open>IndexError\<close> out of range.\<close>

definition py_index :: "'a list \<Rightarrow> nat \<Rightarrow> exn + 'a" where
  "py_index xs i = (if i < length xs then Inr (xs ! i) else Inl IndexError)"

text \<open>\<^verbatim>\<open>min(xs)\<close> and \<^verbatim>\<open>max(xs)\<close>: \<^verbatim>\<open>ValueError\<close> on an empty list.\<close>

definition py_min :: "nat list \<Rightarrow> exn + nat" where
  "py_min xs = (case xs of [] \<Rightarrow> Inl ValueError | y # ys \<Rightarrow> Inr (fold min ys y))"

definition py_max :: "nat list \<Rightarrow> exn + nat" where
  "py_max xs = (case xs of [] \<Rightarrow> Inl ValueError | y # ys \<Rightarrow> Inr (fold max ys y))"

text \<open>
  \<^verbatim>\<open>[x.shape[0] for x in data]\<close>: the comprehension stops at the first element whose
  shape has no first dimension.
\<close>

fun shape0_list :: "tensor list \<Rightarrow> exn + nat list" where
  "shape0_list [] = Inr []"
| "shape0_list (x # xs) =
     (case py_index (shape x) 0 of
        Inl e \<Rightarrow> Inl e
      | Inr n \<Rightarrow> (case shape0_list xs of Inl e \<Rightarrow> Inl e | Inr ns \<Rightarrow> Inr (n # ns)))"

text \<open>\<^verbatim>\<open>data[0].shape[1]\<close>.\<close>

definition markers_per_segment :: "tensor list \<Rightarrow> exn + nat" where
  "markers_per_segment data =
     (case py_index data 0 of
        Inl e \<Rightarrow> Inl e
      | Inr x \<Rightarrow> py_index (shape x) 1)"

definition rule70 :: string where
  "rule70 = replicate 70 (CHR ''='')"

definition dash70 :: string where
  "dash70 = replicate 70 (CHR ''-'')"

section \<open>The command-line wrapper \<^verbatim>\<open>generate_synthetic_data.py\<close>\<close>

text \<open>
  The options as given on the command line: \<open>None\<close> for an option that is absent.
  The values of \<^verbatim>\<open>--fs\<close>, \<^verbatim>\<open>--num-participants\<close> and \<^verbatim>\<open>--max-len\<close> are integers
  (\<^verbatim>\<open>type=int\<close>); values that are not numerals, and arguments the parser does not
  declare, are not part of this model. \<open>opt_help\<close> says whether \<^verbatim>\<open>-h\<close> or \<^verbatim>\<open>--help\<close>,
  which argparse adds to every parser, is given.
\<close>

record argv =
  opt_help :: bool
  opt_bodykin :: "string option"
  opt_markerset :: "string option"
  opt_output :: "string option"
  opt_align_right :: "string option"
  opt_align_left :: "string option"
  opt_fs :: "int option"
  opt_num_participants :: "int option"
  opt_max_len :: "int option"

text \<open>The namespace \<^verbatim>\<open>args\<close> returned by \<^verbatim>\<open>parser.parse_args()\<close>.\<close>

record args =
  args_bodykin :: string
  args_markerset :: string
  args_output :: string
  args_align_right :: string
  args_align_left :: string
  args_fs :: int
  args_num_participants :: int
  args_max_len :: int

text \<open>
  \<^verbatim>\<open>parse_args\<close>: the namespace it returns, or \<open>None\<close> when it does not return but
  exits. With \<^verbatim>\<open>-h\<close> it prints the help and exits, whatever else is given; otherwise the
  six options declared \<^verbatim>\<open>required=True\<close> must be present; \<^verbatim>\<open>--num-participants\<close>
  defaults to 100 and \<^verbatim>\<open>--max-len\<close> to 240.
\<close>

definition parse_args :: "argv \<Rightarrow> args option" where
  "parse_args av =
     (if opt_help av then None
      else
        (case (opt_bodykin av, opt_markerset av, opt_output av,
               opt_align_right av, opt_align_left av, opt_fs av) of
           (Some b, Some m, Some out, Some r, Some l, Some f) \<Rightarrow>
             Some \<lparr>args_bodykin = b, args_markerset = m, args_output = out,
                   args_align_right = r, args_align_left = l, args_fs = f,
                   args_num_participants =
                     (case opt_num_participants av of None \<Rightarrow> 100 | Some n \<Rightarrow> n),
                   args_max_len = (case opt_max_len av of None \<Rightarrow> 240 | Some n \<Rightarrow> n)\<rparr>
         | _ \<Rightarrow> None))"

text \<open>
  How \<^verbatim>\<open>parse_args\<close> exits when it does not return: the help text and exit status 0
  for \<^verbatim>\<open>-h\<close>, the usage message and exit status 2 for a missing required option.
\<close>

definition parse_exit :: "argv \<Rightarrow> run" where
  "parse_exit av = (if opt_help av then ([PrintHelp], SysExit 0) else ([UsageError], SysExit 2))"

text \<open>Lines 96 to 111: the configuration display and the start message.\<close>

definition display_configuration :: "args \<Rightarrow> event list" where
  "display_configuration a =
     [Print rule70,
      Print ''SYNTHETIC TRAJECTORY GENERATION'',
      Print rule70,
      Print (''Body kinematics:    '' @ args_bodykin a),
      Print (''Marker set:         '' @ args_markerset a),
      Print (''Output file:        '' @ args_output a),
      Print (''Alignment markers:  '' @ args_align_right a @ '' (R) / ''
               @ args_align_left a @ '' (L)''),
      Print (''Sampling frequency: '' @ str_int (args_fs a) @ '' Hz''),
      Print (''Participants:       '' @ str_int (args_num_participants a) @ '' / 100''),
      Print (''Max segment length: '' @ str_int (args_max_len a) @ '' frames''),
      Print rule70,
      Print '''',
      Print ''Starting generation...'']"

text \<open>
  Lines 128 to 140, the summary after the core has returned \<open>data\<close>. The statements
  run in order, so the lines printed before a failing expression stay printed: the
  result is the lines printed and the exception that interrupted them, if any.
\<close>

definition summary_head :: "tensor list \<Rightarrow> event list" where
  "summary_head data =
     [Print '''',
      Print rule70,
      Print ''GENERATION COMPLETE'',
      Print rule70,
      Print (''Total segments:     '' @ str_int (int (length data)))]"

definition summary :: "env \<Rightarrow> args \<Rightarrow> tensor list \<Rightarrow> event list \<times> exn option" where
  "summary ev a data =
     (case markers_per_segment data of
        Inl e \<Rightarrow> (summary_head data, Some e)
      | Inr m \<Rightarrow>
          (let t1 = summary_head data @ [Print (''Markers per segment: '' @ str_int (int m))] in
           case shape0_list data of
             Inl e \<Rightarrow> (t1, Some e)
           | Inr ls \<Rightarrow>
               (case py_min ls of
                  Inl e \<Rightarrow> (t1, Some e)
                | Inr lo \<Rightarrow>
                    (case shape0_list data of
                       Inl e \<Rightarrow> (t1, Some e)
                     | Inr ls' \<Rightarrow>
                         (case py_max ls' of
                            Inl e \<Rightarrow> (t1, Some e)
                          | Inr hi \<Rightarrow>
                              (t1 @
                               [Print (''Segment lengths:    '' @ str_int (int lo) @ '' - ''
                                         @ str_int (int hi) @ '' frames''),
                                Print (''Time elapsed:       '' @ elapsed_s ev @ '' seconds (''
                                         @ elapsed_min ev @ '' minutes)''),
                                Print (''Output saved to:    '' @ abspath ev (args_output a)),
                                Print rule70,
                                Print '''',
                                Print ''Next step: Train the model using trainAlgorithm.py''],
                               None))))))"

text \<open>
  Lines 76 to 146 of \<^verbatim>\<open>main\<close>, after the arguments are parsed. \<^verbatim>\<open>os.makedirs\<close> on line 93
  stands before the \<^verbatim>\<open>try\<close>: when it raises, the exception leaves \<^verbatim>\<open>main\<close> and the core is
  not called. Inside the \<^verbatim>\<open>try\<close>, the handler \<^verbatim>\<open>except Exception\<close> catches what the core
  raises, unless it is not an \<^verbatim>\<open>Exception\<close> (a \<^verbatim>\<open>SystemExit\<close>, a \<^verbatim>\<open>KeyboardInterrupt\<close>): that
  leaves \<^verbatim>\<open>main\<close>. What the summary raises is an \<^verbatim>\<open>IndexError\<close> or a \<^verbatim>\<open>ValueError\<close>, which
  the handler catches.
\<close>

definition main_body :: "env \<Rightarrow> core \<Rightarrow> args \<Rightarrow> run" where
  "main_body ev core a =
     (if \<not> path_exists ev (args_bodykin a) then
        ([Print (''ERROR: Body kinematics file not found: '' @ args_bodykin a),
          Print ''Download from: https://doi.org/10.5281/zenodo.4293999''],
         SysExit 1)
      else if \<not> path_exists ev (args_markerset a) then
        ([Print (''ERROR: Marker set file not found: '' @ args_markerset a)], SysExit 1)
      else if args_num_participants a < 1 \<or> args_num_participants a > 100 then
        ([Print ''ERROR: num_participants must be between 1 and 100''], SysExit 1)
      else
        (let output_dir = dirname (args_output a) in
         if output_dir \<noteq> [] \<and> \<not> path_exists ev output_dir \<and> \<not> makedirs_ok ev output_dir
         then ([Makedirs output_dir], Uncaught OSError)
         else
           (let t0 = (if output_dir \<noteq> [] \<and> \<not> path_exists ev output_dir
                      then [Makedirs output_dir,
                            Print (''Created output directory: '' @ output_dir)]
                      else [])
                     @ display_configuration a;
                kw = \<lparr>bodykinpath = args_bodykin a,
                      markersetpath = args_markerset a,
                      outputfile = args_output a,
                      alignMkR = args_align_right a,
                      alignMkL = args_align_left a,
                      fs = args_fs a,
                      num_participants = args_num_participants a,
                      max_len = args_max_len a\<rparr>
            in case core kw of
                 Inl e \<Rightarrow>
                   (if is_Exception e
                    then (t0 @ [Call kw, PrintError e, PrintTraceback e], SysExit 1)
                    else (t0 @ [Call kw], leaves_main e))
               | Inr data \<Rightarrow>
                   (case summary ev a data of
                      (t1, None) \<Rightarrow> (t0 @ [Call kw] @ t1, Returned)
                    | (t1, Some e) \<Rightarrow>
                        (t0 @ [Call kw] @ t1 @ [PrintError e, PrintTraceback e], SysExit 1)))))"

text \<open>\<^verbatim>\<open>main\<close>: parse the command line, then run the body.\<close>

definition main :: "env \<Rightarrow> core \<Rightarrow> argv \<Rightarrow> run" where
  "main ev core av =
     (case parse_args av of
        None \<Rightarrow> parse_exit av
      | Some a \<Rightarrow> main_body ev core a)"

section \<open>The configuration template \<^verbatim>\<open>config_template.py\<close>\<close>

text \<open>
  The module constants of the template. A user copies the file and edits them, so
  the functions below take them as a record; \<open>template_config\<close> holds the values
  the file ships with.
\<close>

record config =
  BODYKIN_PATH :: string
  MARKERSET_PATH :: string
  OUTPUT_PATH :: string
  ALIGN_MARKER_RIGHT :: string
  ALIGN_MARKER_LEFT :: string
  SAMPLING_FREQUENCY :: int
  NUM_PARTICIPANTS :: int
  MAX_SEGMENT_LENGTH :: int

definition template_config :: config where
  "template_config =
     \<lparr>BODYKIN_PATH = ''../data/bodykinematics.hdf5'',
      MARKERSET_PATH = ''../data/MarkerSet.xml'',
      OUTPUT_PATH = ''../data/simulatedTrajectories.pickle'',
      ALIGN_MARKER_RIGHT = ''RAC'',
      ALIGN_MARKER_LEFT = ''LAC'',
      SAMPLING_FREQUENCY = 240,
      NUM_PARTICIPANTS = 100,
      MAX_SEGMENT_LENGTH = 240\<rparr>"

text \<open>\<^verbatim>\<open>validate_config\<close>: the pair \<^verbatim>\<open>(errors, warnings)\<close>.\<close>

definition validate_config :: "env \<Rightarrow> config \<Rightarrow> string list \<times> string list" where
  "validate_config ev c =
     (let errors =
            (if \<not> path_exists ev (BODYKIN_PATH c)
             then [''Body kinematics file not found: '' @ BODYKIN_PATH c,
                   ''  Download from: https://doi.org/10.5281/zenodo.4293999'']
             else [])
            @ (if \<not> path_exists ev (MARKERSET_PATH c)
               then [''Marker set file not found: '' @ MARKERSET_PATH c]
               else [])
            @ (if NUM_PARTICIPANTS c < 1 \<or> NUM_PARTICIPANTS c > 100
               then [''NUM_PARTICIPANTS must be 1-100, got '' @ str_int (NUM_PARTICIPANTS c)]
               else []);
          output_dir = dirname (OUTPUT_PATH c);
          warnings =
            (if SAMPLING_FREQUENCY c < 50 \<or> SAMPLING_FREQUENCY c > 500
             then [''Unusual sampling frequency: '' @ str_int (SAMPLING_FREQUENCY c) @ '' Hz'',
                   ''  Common values: 120, 240 Hz'']
             else [])
            @ (if MAX_SEGMENT_LENGTH c < 60 \<or> MAX_SEGMENT_LENGTH c > 500
               then [''Unusual max segment length: '' @ str_int (MAX_SEGMENT_LENGTH c)
                       @ '' frames'',
                     ''  Typical range: 120-240 frames'']
               else [])
            @ (if output_dir \<noteq> [] \<and> \<not> path_exists ev output_dir
               then [''Output directory will be created: '' @ output_dir]
               else [])
      in (errors, warnings))"

text \<open>\<^verbatim>\<open>str.lower()\<close> on ASCII letters.\<close>

definition lower_char :: "char \<Rightarrow> char" where
  "lower_char c =
     (case map_of (zip ''ABCDEFGHIJKLMNOPQRSTUVWXYZ'' ''abcdefghijklmnopqrstuvwxyz'') c of
        Some l \<Rightarrow> l
      | None \<Rightarrow> c)"

definition lower :: "string \<Rightarrow> string" where
  "lower s = map lower_char s"

text \<open>The three non-ASCII glyphs of the template's messages, as their UTF-8 bytes.\<close>

definition warning_sign :: string where
  "warning_sign = [CHR 0xE2, CHR 0x9A, CHR 0xA0, CHR 0xEF, CHR 0xB8, CHR 0x8F]"

definition cross_mark :: string where
  "cross_mark = [CHR 0xE2, CHR 0x9D, CHR 0x8C]"

definition check_mark :: string where
  "check_mark = [CHR 0xE2, CHR 0x9C, CHR 0x93]"

text \<open>Lines 112 to 131 of the template's \<^verbatim>\<open>main\<close>: the banner and the configuration.\<close>

definition template_banner :: "config \<Rightarrow> event list" where
  "template_banner c =
     [Print rule70,
      Print ''SYNTHETIC TRAJECTORY GENERATION - CONFIGURATION'',
      Print rule70,
      Print '''',
      Print ''CONFIGURATION:'',
      Print dash70,
      Print (''Body kinematics:    '' @ BODYKIN_PATH c),
      Print (''Marker set:         '' @ MARKERSET_PATH c),
      Print (''Output file:        '' @ OUTPUT_PATH c),
      Print (''Alignment markers:  '' @ ALIGN_MARKER_RIGHT c @ '' (R) / ''
               @ ALIGN_MARKER_LEFT c @ '' (L)''),
      Print (''Sampling frequency: '' @ str_int (SAMPLING_FREQUENCY c) @ '' Hz''),
      Print (''Participants:       '' @ str_int (NUM_PARTICIPANTS c) @ '' / 100''),
      Print (''Max segment length: '' @ str_int (MAX_SEGMENT_LENGTH c) @ '' frames''),
      Print '''',
      Print ''VALIDATION:'',
      Print dash70]"

definition print_warnings :: "string list \<Rightarrow> event list" where
  "print_warnings warnings =
     (if warnings \<noteq> []
      then [Print (warning_sign @ ''  WARNINGS:'')]
           @ map (\<lambda>w. Print (''    '' @ w)) warnings @ [Print '''']
      else [])"

definition print_errors :: "string list \<Rightarrow> event list" where
  "print_errors errors =
     [Print (cross_mark @ '' ERRORS:'')]
     @ map (\<lambda>e. Print (''    '' @ e)) errors
     @ [Print '''', Print ''Please fix errors and run again.'']"

text \<open>Lines 186 to 199: the summary of the template, interrupted by \<^verbatim>\<open>data[0]\<close>.\<close>

definition template_summary :: "env \<Rightarrow> config \<Rightarrow> tensor list \<Rightarrow> event list \<times> exn option" where
  "template_summary ev c data =
     (let t0 = [Print '''',
                Print rule70,
                Print ''GENERATION COMPLETE'',
                Print rule70,
                Print (''Total segments:      '' @ str_int (int (length data)))]
      in case markers_per_segment data of
           Inl e \<Rightarrow> (t0, Some e)
         | Inr m \<Rightarrow>
             (t0 @
              [Print (''Markers per segment: '' @ str_int (int m)),
               Print (''Time elapsed:        '' @ elapsed_s ev @ '' seconds (''
                        @ elapsed_min ev @ '' min)''),
               Print (''Output saved to:     '' @ abspath ev (OUTPUT_PATH c)),
               Print '''',
               Print ''Next steps:'',
               Print (''  1. Inspect data: python inspect_synthetic_data.py '' @ OUTPUT_PATH c),
               Print ''  2. Train model:  python ../trainAlgorithm.py'',
               Print rule70],
              None))"

text \<open>
  The template's \<^verbatim>\<open>main\<close>. Nothing here is inside a \<^verbatim>\<open>try\<close>, so an exception of
  \<^verbatim>\<open>os.makedirs\<close> (lines 164 to 166, before the core is called), of the core, or of the
  summary leaves \<^verbatim>\<open>main\<close>.
\<close>

definition template_main :: "env \<Rightarrow> core \<Rightarrow> config \<Rightarrow> run" where
  "template_main ev core c =
     (case validate_config ev c of
        (errors, warnings) \<Rightarrow>
          (let t0 = template_banner c @ print_warnings warnings in
           if errors \<noteq> [] then (t0 @ print_errors errors, SysExit 1)
           else
             (let t1 = t0 @ [Print (check_mark @ '' Configuration valid''), Print '''',
                             Input ''Proceed with generation? [y/N]: ''] in
              if lower (response ev) \<notin> set [''y'', ''yes'']
              then (t1 @ [Print ''Cancelled.''], SysExit 0)
              else
                (let output_dir = dirname (OUTPUT_PATH c);
                     t2 = t1 @ [Print '''', Print rule70, Print ''STARTING GENERATION'',
                                Print rule70, Print '''']
                 in if output_dir \<noteq> [] \<and> \<not> path_exists ev output_dir
                       \<and> \<not> makedirs_ok ev output_dir
                    then (t2 @ [Makedirs output_dir], Uncaught OSError)
                    else
                      (let t3 = t2 @ (if output_dir \<noteq> [] \<and> \<not> path_exists ev output_dir
                                      then [Makedirs output_dir,
                                            Print (''Created directory: '' @ output_dir)]
                                      else []);
                           kw = \<lparr>bodykinpath = BODYKIN_PATH c,
                                 markersetpath = MARKERSET_PATH c,
                                 outputfile = OUTPUT_PATH c,
                                 alignMkR = ALIGN_MARKER_RIGHT c,
                                 alignMkL = ALIGN_MARKER_LEFT c,
                                 fs = SAMPLING_FREQUENCY c,
                                 num_participants = NUM_PARTICIPANTS c,
                                 max_len = MAX_SEGMENT_LENGTH c\<rparr>
                       in case core kw of
                            Inl e \<Rightarrow> (t3 @ [Call kw], leaves_main e)
                          | Inr data \<Rightarrow>
                              (case template_summary ev c data of
                                 (t4, None) \<Rightarrow> (t3 @ [Call kw] @ t4, Returned)
                               | (t4, Some e) \<Rightarrow> (t3 @ [Call kw] @ t4, leaves_main e)))))))"

section \<open>Observations on a run\<close>

text \<open>
  An event that reports an error to the user: a printed line starting with
  \<^verbatim>\<open>ERROR:\<close>, the report of a caught exception, or the usage message of argparse.
\<close>

fun is_error_report :: "event \<Rightarrow> bool" where
  "is_error_report (Print s) = (take 6 s = ''ERROR:'')"
| "is_error_report (PrintError e) = True"
| "is_error_report UsageError = True"
| "is_error_report _ = False"

text \<open>
  The directory of the output file is there once lines 91 to 94 of the wrapper (164 to
  166 of the template) have run: the path has no directory part, or the directory
  exists, or \<^verbatim>\<open>os.makedirs\<close> creates it.
\<close>

definition output_dir_ready :: "env \<Rightarrow> string \<Rightarrow> bool" where
  "output_dir_ready ev out =
     (dirname out = [] \<or> path_exists ev (dirname out) \<or> makedirs_ok ev (dirname out))"

section \<open>Example inputs\<close>

text \<open>
  The command line of the usage example in the wrapper's docstring, the namespace it
  parses to, the keyword arguments it leads to, and an environment in which the two
  input files and the output directory \<^verbatim>\<open>../data\<close> exist, and in which no directory can
  be created below the file \<^verbatim>\<open>../data/bodykinematics.hdf5\<close>.
\<close>

definition example_env :: env where
  "example_env =
     \<lparr>path_exists = (\<lambda>p. p \<in> set [''../data/bodykinematics.hdf5'', ''../data/MarkerSet.xml'', ''../data'']),
      makedirs_ok = (\<lambda>d. d \<noteq> ''../data/bodykinematics.hdf5/sub''),
      abspath = (\<lambda>p. ''/home/user/auto-marker-label/generating_synthetic_data/'' @ p),
      elapsed_s = ''812.4'',
      elapsed_min = ''13.5'',
      response = ''y''\<rparr>"

definition example_argv :: argv where
  "example_argv =
     \<lparr>opt_help = False,
      opt_bodykin = Some ''../data/bodykinematics.hdf5'',
      opt_markerset = Some ''../data/MarkerSet.xml'',
      opt_output = Some ''../data/simulatedTrajectories.pickle'',
      opt_align_right = Some ''RAC'',
      opt_align_left = Some ''LAC'',
      opt_fs = Some 240,
      opt_num_participants = Some 100,
      opt_max_len = None\<rparr>"

definition example_args :: args where
  "example_args =
     \<lparr>args_bodykin = ''../data/bodykinematics.hdf5'',
      args_markerset = ''../data/MarkerSet.xml'',
      args_output = ''../data/simulatedTrajectories.pickle'',
      args_align_right = ''RAC'',
      args_align_left = ''LAC'',
      args_fs = 240,
      args_num_participants = 100,
      args_max_len = 240\<rparr>"

definition example_kwargs :: kwargs where
  "example_kwargs =
     \<lparr>bodykinpath = ''../data/bodykinematics.hdf5'',
      markersetpath = ''../data/MarkerSet.xml'',
      outputfile = ''../data/simulatedTrajectories.pickle'',
      alignMkR = ''RAC'',
      alignMkL = ''LAC'',
      fs = 240,
      num_participants = 100,
      max_len = 240\<rparr>"

section \<open>The generation pipeline, from the specification\<close>

text \<open>
  The pipeline itself (\<^verbatim>\<open>automarkerlabel.generateSimTrajectories\<close>) is not among the
  source files. The definitions of this section follow the words of the specification
  (sections 3, 4.3, 4.4 and 4.5) and stand for the missing code in the claims about the
  Segmenter and about missing values.
\<close>

subsection \<open>Data model\<close>

type_synonym vec3 = "real \<times> real \<times> real"

text \<open>A 3 by 3 matrix, as its three rows.\<close>

type_synonym mat3 = "vec3 \<times> vec3 \<times> vec3"

text \<open>
  Modelled from the spec: the position of one marker in one frame of a
  GlobalMarkerTrajectory, whose producer is missing. It is a 3-vector, or the value
  \<open>NaN\<close> that section 4.3 emits for a frame whose segment motion is invalid or missing.
\<close>

datatype position = NaN | At vec3

text \<open>
  A frame holds one position per marker, in catalog order; a trajectory (and a
  TrajectorySegment, which is a contiguous chunk of one) is a sequence of frames.
\<close>

type_synonym frame = "position list"

type_synonym trajectory = "frame list"

text \<open>Modelled from the spec: the MarkerDefinition record of section 3.\<close>

record marker_definition =
  name :: string
  hostSegment :: string
  localOffset :: vec3

text \<open>
  Modelled from the spec: the SegmentMotion record of section 3. The specification
  speaks of a motion that is "marked invalid/missing" for a frame without giving the
  mark a field; here \<open>valid\<close> holds one flag per frame, and a frame beyond the end of
  one of the three sequences counts as missing.
\<close>

record segment_motion =
  rotation :: "mat3 list"
  translation :: "vec3 list"
  scale :: vec3
  valid :: "bool list"

text \<open>
  Modelled from the spec: TrialKinematics, a mapping from segment name to
  SegmentMotion, with the frame count all its segments share.
\<close>

record trial_kinematics =
  frameCount :: nat
  segments :: "string \<rightharpoonup> segment_motion"

text \<open>Modelled from the spec: the AlignmentFrame record of section 3.\<close>

record alignment_frame =
  frame_rotation :: mat3
  frame_translation :: vec3

subsection \<open>Forward kinematics (section 4.3)\<close>

text \<open>
  Modelled from the spec: the arithmetic of 3-vectors and 3 by 3 matrices that the formulas
  of sections 4.3 and 4.4 use (elementwise product, inner product, sum, difference,
  matrix times vector, transpose), over the reals: floating point is not modelled.
\<close>

definition hadamard :: "vec3 \<Rightarrow> vec3 \<Rightarrow> vec3" where
  "hadamard a b =
     (case (a, b) of ((a1, a2, a3), (b1, b2, b3)) \<Rightarrow> (a1 * b1, a2 * b2, a3 * b3))"

definition dot :: "vec3 \<Rightarrow> vec3 \<Rightarrow> real" where
  "dot a b = (case (a, b) of ((a1, a2, a3), (b1, b2, b3)) \<Rightarrow> a1 * b1 + a2 * b2 + a3 * b3)"

definition vadd :: "vec3 \<Rightarrow> vec3 \<Rightarrow> vec3" where
  "vadd a b = (case (a, b) of ((a1, a2, a3), (b1, b2, b3)) \<Rightarrow> (a1 + b1, a2 + b2, a3 + b3))"

definition vsub :: "vec3 \<Rightarrow> vec3 \<Rightarrow> vec3" where
  "vsub a b = (case (a, b) of ((a1, a2, a3), (b1, b2, b3)) \<Rightarrow> (a1 - b1, a2 - b2, a3 - b3))"

definition mat_vec :: "mat3 \<Rightarrow> vec3 \<Rightarrow> vec3" where
  "mat_vec R v = (case R of (r1, r2, r3) \<Rightarrow> (dot r1 v, dot r2 v, dot r3 v))"

definition transpose3 :: "mat3 \<Rightarrow> mat3" where
  "transpose3 R =
     (case R of ((a11, a12, a13), (a21, a22, a23), (a31, a32, a33)) \<Rightarrow>
        ((a11, a21, a31), (a12, a22, a32), (a13, a23, a33)))"

text \<open>
  Modelled from the spec: the motion of a segment is usable at frame \<open>f\<close>, that is,
  present and not marked invalid.
\<close>

definition motion_valid :: "segment_motion \<Rightarrow> nat \<Rightarrow> bool" where
  "motion_valid s f =
     (f < length (rotation s) \<and> f < length (translation s) \<and> f < length (valid s)
      \<and> valid s ! f)"

text \<open>
  Modelled from the spec: the position of one marker in one frame,
  \<^verbatim>\<open>p(f) = R_seg(f) . (scale_seg (.) localOffset(m)) + t_seg(f)\<close>, and \<open>NaN\<close> when the
  motion of the host segment is invalid or missing at that frame.
\<close>

definition marker_position :: "segment_motion \<Rightarrow> marker_definition \<Rightarrow> nat \<Rightarrow> position" where
  "marker_position s m f =
     (if motion_valid s f
      then At (vadd (mat_vec (rotation s ! f) (hadamard (scale s) (localOffset m)))
                    (translation s ! f))
      else NaN)"

text \<open>
  Modelled from the spec: the Forward Kinematics Engine, which is missing. A marker
  whose host segment has no entry in the trial is a fatal configuration error
  (section 3); otherwise the result has one frame per frame of the trial and one
  position per marker, in catalog order. The check of orthonormality, whose tolerance
  the specification does not give, is the parameter \<open>orthonormal\<close>; a valid frame that
  fails it makes the trial fail (section 7).
\<close>

definition marker_track :: "trial_kinematics \<Rightarrow> marker_definition \<Rightarrow> nat \<Rightarrow> position" where
  "marker_track kin m f =
     (case segments kin (hostSegment m) of
        None \<Rightarrow> NaN
      | Some s \<Rightarrow> marker_position s m f)"

definition rotations_ok :: "(mat3 \<Rightarrow> bool) \<Rightarrow> trial_kinematics \<Rightarrow> marker_definition \<Rightarrow> bool" where
  "rotations_ok orthonormal kin m =
     (case segments kin (hostSegment m) of
        None \<Rightarrow> True
      | Some s \<Rightarrow>
          list_all (\<lambda>f. \<not> motion_valid s f \<or> orthonormal (rotation s ! f))
            [0..<frameCount kin])"

definition forward_kinematics ::
  "(mat3 \<Rightarrow> bool) \<Rightarrow> marker_definition list \<Rightarrow> trial_kinematics \<Rightarrow> exn + trajectory" where
  "forward_kinematics orthonormal catalog kin =
     (if \<not> list_all (\<lambda>m. segments kin (hostSegment m) \<noteq> None) catalog
      then Inl ConfigError
      else if \<not> list_all (rotations_ok orthonormal kin) catalog
      then Inl DataNotFoundError
      else Inr (map (\<lambda>f. map (\<lambda>m. marker_track kin m f) catalog) [0..<frameCount kin]))"

subsection \<open>Applying an alignment (section 4.4)\<close>

text \<open>
  Modelled from the spec: \<^verbatim>\<open>apply(trajectory, AlignmentFrame)\<close>, which is missing: every
  marker of every frame is transformed by \<^verbatim>\<open>p' = R^T . (p - t)\<close>, with the same frame for
  the whole trial. A missing position stays missing.
\<close>

definition align_position :: "alignment_frame \<Rightarrow> position \<Rightarrow> position" where
  "align_position A p =
     (case p of
        NaN \<Rightarrow> NaN
      | At v \<Rightarrow> At (mat_vec (transpose3 (frame_rotation A)) (vsub v (frame_translation A))))"

definition apply_alignment :: "alignment_frame \<Rightarrow> trajectory \<Rightarrow> trajectory" where
  "apply_alignment A traj = map (map (align_position A)) traj"

subsection \<open>The Segmenter (section 4.5)\<close>

text \<open>
  Modelled from the spec: the partition of a trial's frames into consecutive chunks
  of \<open>maxLen\<close> frames, the last one holding the remainder. The Segmenter is missing from
  the source files. The specification says nothing of \<open>maxLen = 0\<close>, which the
  configuration is to exclude; here it gives no chunk.
\<close>

function chunks :: "nat \<Rightarrow> 'a list \<Rightarrow> 'a list list" where
  "chunks maxLen xs =
     (if maxLen = 0 \<or> xs = [] then [] else take maxLen xs # chunks maxLen (drop maxLen xs))"
  by pat_completeness auto
termination
  by (relation "measure (\<lambda>(maxLen, xs). length xs)") auto

declare chunks.simps [simp del]

text \<open>Modelled from the spec: a chunk with no valid data for any marker.\<close>

definition all_nan :: "trajectory \<Rightarrow> bool" where
  "all_nan c = list_all (list_all (\<lambda>p. p = NaN)) c"

text \<open>
  Modelled from the spec: \<^verbatim>\<open>split(trajectory, maxLen)\<close>, which is missing: the chunks of
  the partition, without the trailing chunks that are all \<open>NaN\<close>.
\<close>

definition split :: "trajectory \<Rightarrow> nat \<Rightarrow> trajectory list" where
  "split traj maxLen = rev (dropWhile all_nan (rev (chunks maxLen traj)))"

text \<open>
  Modelled from the spec: the segments of a sequence of trials, in order. Each trial is
  split on its own, so no chunk crosses a trial boundary.
\<close>

definition split_trials :: "trajectory list \<Rightarrow> nat \<Rightarrow> trajectory list" where
  "split_trials trials maxLen = concat (map (\<lambda>t. split t maxLen) trials)"

text \<open>
  Modelled from the spec: the segments one trial contributes to the dataset: forward
  kinematics, the trial's alignment, the Segmenter. The AlignmentFrame is an input:
  its estimation depends on a reference axis that the specification leaves open
  (section 9).
\<close>

definition trial_segments ::
  "(mat3 \<Rightarrow> bool) \<Rightarrow> alignment_frame \<Rightarrow> nat \<Rightarrow> marker_definition list \<Rightarrow> trial_kinematics
     \<Rightarrow> exn + trajectory list" where
  "trial_segments orthonormal A maxLen catalog kin =
     (case forward_kinematics orthonormal catalog kin of
        Inl e \<Rightarrow> Inl e
      | Inr traj \<Rightarrow> Inr (split (apply_alignment A traj) maxLen))"

text \<open>Modelled from the spec: a trajectory segment that contains a \<open>NaN\<close>.\<close>

definition has_nan :: "trajectory \<Rightarrow> bool" where
  "has_nan c = list_ex (list_ex (\<lambda>p. p = NaN)) c"

text \<open>
  Modelled from the spec: the number of trailing all-\<open>NaN\<close> chunks the Segmenter drops
  from the partition of a trial.
\<close>

definition dropped :: "trajectory \<Rightarrow> nat \<Rightarrow> nat" where
  "dropped traj maxLen = length (takeWhile all_nan (rev (chunks maxLen traj)))"

text \<open>
  Modelled from the spec: the motion of a marker's host segment is present and valid at
  frame \<open>f\<close> of a trial.
\<close>

definition host_valid :: "trial_kinematics \<Rightarrow> marker_definition \<Rightarrow> nat \<Rightarrow> bool" where
  "host_valid kin m f =
     (case segments kin (hostSegment m) of
        None \<Rightarrow> False
      | Some s \<Rightarrow> motion_valid s f)"

subsection \<open>Example trials\<close>

text \<open>
  A frame of five valid markers and a trial of 300 such frames (the end-to-end scenario
  of section 8); a catalog of three markers on two segments, and two trials of two
  frames in which both segments stand still: in \<open>dropout_trial\<close> the motion of the arm is
  marked invalid in the second frame, in \<open>steady_trial\<close> every motion is valid.
\<close>

definition example_frame :: frame where
  "example_frame = [At (1, 0, 0), At (- 1, 0, 0), At (0, 1, 0), At (0, 0, 1), At (0, 0, 0)]"

definition example_trial300 :: trajectory where
  "example_trial300 = replicate 300 example_frame"

definition identity3 :: mat3 where
  "identity3 = ((1, 0, 0), (0, 1, 0), (0, 0, 1))"

definition steady_motion :: "bool list \<Rightarrow> segment_motion" where
  "steady_motion flags =
     \<lparr>rotation = [identity3, identity3], translation = [(0, 0, 0), (0, 0, 0)],
      scale = (1, 1, 1), valid = flags\<rparr>"

definition example_catalog :: "marker_definition list" where
  "example_catalog =
     [\<lparr>name = ''RAC'', hostSegment = ''torso'', localOffset = (1, 0, 0)\<rparr>,
      \<lparr>name = ''LAC'', hostSegment = ''torso'', localOffset = (- 1, 0, 0)\<rparr>,
      \<lparr>name = ''RELB'', hostSegment = ''arm'', localOffset = (0, 1, 0)\<rparr>]"

definition dropout_trial :: trial_kinematics where
  "dropout_trial =
     \<lparr>frameCount = 2,
      segments = [''torso'' \<mapsto> steady_motion [True, True],
                  ''arm'' \<mapsto> steady_motion [True, False]]\<rparr>"

definition steady_trial :: trial_kinematics where
  "steady_trial =
     \<lparr>frameCount = 2,
      segments = [''torso'' \<mapsto> steady_motion [True, True],
                  ''arm'' \<mapsto> steady_motion [True, True]]\<rparr>"

definition identity_frame :: alignment_frame where
  "identity_frame = \<lparr>frame_rotation = identity3, frame_translation = (0, 0, 0)\<rparr>"

section \<open>Properties of the wrapper\<close>

lemma rule70_not_error: "take 6 rule70 \<noteq> ''ERROR:''"
  by code_simp

lemma calls_in_append: "calls_in (a @ b) = calls_in a @ calls_in b"
  by (induction a rule: calls_in.induct) simp_all

lemma calls_in_display: "calls_in (display_configuration a) = []"
  by (simp add: display_configuration_def)

lemma calls_in_summary: "summary ev a data = (t, x) \<Longrightarrow> calls_in t = []"
  by (auto simp add: summary_def summary_head_def Let_def split: sum.splits)

lemma leaves_main_not_Returned: "leaves_main e \<noteq> Returned"
  by (cases e) simp_all

lemma leaves_main_exit0: "(leaves_main e = SysExit n) = (e = SystemExit n)"
  by (cases e) auto

lemma shape0_list_raises: "shape0_list data = Inl e \<Longrightarrow> e = IndexError"
  by (induction data arbitrary: e) (auto simp add: py_index_def split: sum.splits if_splits)

lemma summary_raises_Exception: "summary ev a data = (t, Some e) \<Longrightarrow> is_Exception e"
  by (auto simp add: summary_def markers_per_segment_def py_index_def py_min_def py_max_def
      Let_def split: sum.splits if_splits list.splits dest: shape0_list_raises)

lemma main_parsed: "parse_args av = Some a \<Longrightarrow> main ev core av = main_body ev core a"
  by (simp add: main_def)

lemma main_unparsed: "parse_args av = None \<Longrightarrow> main ev core av = parse_exit av"
  by (simp add: main_def)

lemma parse_args_no_help: "parse_args av = Some a \<Longrightarrow> \<not> opt_help av"
  by (auto simp add: parse_args_def split: if_splits)

lemma main_help: "opt_help av \<Longrightarrow> main ev core av = ([PrintHelp], SysExit 0)"
  by (simp add: main_def parse_args_def parse_exit_def)

lemma main_usage:
  "parse_args av = None \<Longrightarrow> \<not> opt_help av \<Longrightarrow> main ev core av = ([UsageError], SysExit 2)"
  by (simp add: main_def parse_exit_def)

lemma core_calls_parse_exit: "core_calls (parse_exit av) = []"
  by (simp add: parse_exit_def core_calls_def trace_def)

lemma outcome_parse_exit: "outcome_of (parse_exit av) = SysExit (if opt_help av then 0 else 2)"
  by (simp add: parse_exit_def outcome_of_def)

lemma outcome_main_body_rejected:
  "\<not> (path_exists ev (args_bodykin a) \<and> path_exists ev (args_markerset a)
         \<and> 1 \<le> args_num_participants a \<and> args_num_participants a \<le> 100)
   \<Longrightarrow> outcome_of (main_body ev core a) = SysExit 1"
  by (auto simp add: outcome_of_def main_body_def)

lemma core_calls_main_body_rejected:
  "\<not> (path_exists ev (args_bodykin a) \<and> path_exists ev (args_markerset a)
         \<and> 1 \<le> args_num_participants a \<and> args_num_participants a \<le> 100)
   \<Longrightarrow> core_calls (main_body ev core a) = []"
  by (auto simp add: core_calls_def trace_def main_body_def)

lemma error_report_main_body_rejected:
  "\<not> (path_exists ev (args_bodykin a) \<and> path_exists ev (args_markerset a)
         \<and> 1 \<le> args_num_participants a \<and> args_num_participants a \<le> 100)
   \<Longrightarrow> list_ex is_error_report (trace (main_body ev core a))"
  by (auto simp add: trace_def main_body_def)

lemma main_body_makedirs_fails:
  assumes "path_exists ev (args_bodykin a)" and "path_exists ev (args_markerset a)"
    and "1 \<le> args_num_participants a" and "args_num_participants a \<le> 100"
    and "\<not> output_dir_ready ev (args_output a)"
  shows "main_body ev core a = ([Makedirs (dirname (args_output a))], Uncaught OSError)"
  using assms by (simp add: main_body_def output_dir_ready_def Let_def)

lemma summary_empty: "summary ev a [] = (summary_head [], Some IndexError)"
  by (simp add: summary_def markers_per_segment_def py_index_def)

lemma summary_head_total:
  "Print (''Total segments:     '' @ str_int (int (length data))) \<in> set (summary_head data)"
  by (simp add: summary_head_def)

lemma summary_prints_total:
  "summary ev a data = (t, x) \<Longrightarrow>
   Print (''Total segments:     '' @ str_int (int (length data))) \<in> set t"
  using summary_head_total [of data]
  by (auto simp add: summary_def Let_def split: sum.splits)

lemma summary_done_nonempty: "summary ev a data = (t, None) \<Longrightarrow> data \<noteq> []"
  by (auto simp add: summary_empty)

lemma main_body_accepted:
  assumes "path_exists ev (args_bodykin a)" and "path_exists ev (args_markerset a)"
    and "1 \<le> args_num_participants a" and "args_num_participants a \<le> 100"
    and "output_dir_ready ev (args_output a)"
  shows "\<exists>t0. calls_in t0 = [] \<and> \<not> list_ex is_error_report t0 \<and>
     main_body ev core a =
       (let kw = \<lparr>bodykinpath = args_bodykin a, markersetpath = args_markerset a,
             outputfile = args_output a, alignMkR = args_align_right a,
             alignMkL = args_align_left a, fs = args_fs a,
             num_participants = args_num_participants a, max_len = args_max_len a\<rparr>
        in case core kw of
              Inl e \<Rightarrow>
                (if is_Exception e
                 then (t0 @ [Call kw, PrintError e, PrintTraceback e], SysExit 1)
                 else (t0 @ [Call kw], leaves_main e))
            | Inr data \<Rightarrow>
                (case summary ev a data of
                   (t1, None) \<Rightarrow> (t0 @ [Call kw] @ t1, Returned)
                 | (t1, Some e) \<Rightarrow>
                     (t0 @ [Call kw] @ t1 @ [PrintError e, PrintTraceback e], SysExit 1)))"
proof -
  let ?d = "dirname (args_output a)"
  let ?t0 = "(if ?d \<noteq> [] \<and> \<not> path_exists ev ?d
                   then [Makedirs ?d,
                         Print (''Created output directory: '' @ ?d)]
                   else [])
                  @ display_configuration a"
  have "calls_in ?t0 = []"
    by (simp add: calls_in_append calls_in_display)
  moreover have "\<not> list_ex is_error_report ?t0"
    by (simp add: display_configuration_def rule70_not_error)
  moreover have "main_body ev core a =
       (let kw = \<lparr>bodykinpath = args_bodykin a, markersetpath = args_markerset a,
             outputfile = args_output a, alignMkR = args_align_right a,
             alignMkL = args_align_left a, fs = args_fs a,
             num_participants = args_num_participants a, max_len = args_max_len a\<rparr>
        in case core kw of
              Inl e \<Rightarrow>
                (if is_Exception e
                 then (?t0 @ [Call kw, PrintError e, PrintTraceback e], SysExit 1)
                 else (?t0 @ [Call kw], leaves_main e))
            | Inr data \<Rightarrow>
                (case summary ev a data of
                   (t1, None) \<Rightarrow> (?t0 @ [Call kw] @ t1, Returned)
                 | (t1, Some e) \<Rightarrow>
                     (?t0 @ [Call kw] @ t1 @ [PrintError e, PrintTraceback e], SysExit 1)))"
  proof -
    have r: "\<not> (?d \<noteq> [] \<and> \<not> path_exists ev ?d \<and> \<not> makedirs_ok ev ?d)"
      using assms(5) by (auto simp add: output_dir_ready_def)
    show ?thesis
      using assms(1-4) r by (simp only: main_body_def Let_def) simp
  qed
  ultimately show ?thesis by blast
qed

lemma core_calls_main_body:
  "core_calls (main_body ev core a) =
     (if path_exists ev (args_bodykin a) \<and> path_exists ev (args_markerset a)
         \<and> 1 \<le> args_num_participants a \<and> args_num_participants a \<le> 100
         \<and> output_dir_ready ev (args_output a)
      then [\<lparr>bodykinpath = args_bodykin a, markersetpath = args_markerset a,
             outputfile = args_output a, alignMkR = args_align_right a,
             alignMkL = args_align_left a, fs = args_fs a,
             num_participants = args_num_participants a, max_len = args_max_len a\<rparr>]
      else [])"
proof (cases "path_exists ev (args_bodykin a) \<and> path_exists ev (args_markerset a)
         \<and> 1 \<le> args_num_participants a \<and> args_num_participants a \<le> 100")
  case False
  then show ?thesis
    using core_calls_main_body_rejected [of ev a core] by auto
next
  case v: True
  show ?thesis
  proof (cases "output_dir_ready ev (args_output a)")
    case False
    then show ?thesis
      using v main_body_makedirs_fails [of ev a core]
      by (simp add: core_calls_def trace_def)
  next
    case True
    let ?kw = "\<lparr>bodykinpath = args_bodykin a, markersetpath = args_markerset a,
             outputfile = args_output a, alignMkR = args_align_right a,
             alignMkL = args_align_left a, fs = args_fs a,
             num_participants = args_num_participants a, max_len = args_max_len a\<rparr>"
    from v True obtain t0 where t0: "calls_in t0 = []"
      and mb: "main_body ev core a =
         (case core ?kw of
              Inl e \<Rightarrow>
                (if is_Exception e
                 then (t0 @ [Call ?kw, PrintError e, PrintTraceback e], SysExit 1)
                 else (t0 @ [Call ?kw], leaves_main e))
            | Inr data \<Rightarrow>
                (case summary ev a data of
                   (t1, None) \<Rightarrow> (t0 @ [Call ?kw] @ t1, Returned)
                 | (t1, Some e) \<Rightarrow>
                     (t0 @ [Call ?kw] @ t1 @ [PrintError e, PrintTraceback e], SysExit 1)))"
      using main_body_accepted [of ev a core] by (auto simp add: Let_def)
    have "core_calls (main_body ev core a) = [?kw]"
    proof (cases "core ?kw")
      case (Inl e)
      then show ?thesis
        using mb t0 by (simp add: core_calls_def trace_def calls_in_append)
    next
      case (Inr data)
      obtain t1 x where s: "summary ev a data = (t1, x)"
        by (cases "summary ev a data")
      have "calls_in t1 = []"
        using s by (rule calls_in_summary)
      then show ?thesis
        using mb t0 Inr s
        by (cases x) (simp_all add: core_calls_def trace_def calls_in_append)
    qed
    then show ?thesis
      using v True by simp
  qed
qed

lemma parse_example: "parse_args example_argv = Some example_args"
  by (simp add: parse_args_def example_argv_def example_args_def)

lemma parse_example_upd:
  "parse_args (example_argv\<lparr>opt_num_participants := Some n\<rparr>) =
     Some (example_args\<lparr>args_num_participants := n\<rparr>)"
  by (simp add: parse_args_def example_argv_def example_args_def)

lemma parse_example_output:
  "parse_args (example_argv\<lparr>opt_output := Some p\<rparr>) = Some (example_args\<lparr>args_output := p\<rparr>)"
  by (simp add: parse_args_def example_argv_def example_args_def)

lemma dirname_example: "dirname ''../data/simulatedTrajectories.pickle'' = ''../data''"
  by code_simp

lemma dirname_below_file:
  "dirname ''../data/bodykinematics.hdf5/sub/x.pickle'' = ''../data/bodykinematics.hdf5/sub''"
  by code_simp

lemma example_dir_ready: "output_dir_ready example_env ''../data/simulatedTrajectories.pickle''"
  by (simp add: output_dir_ready_def dirname_example example_env_def)

lemma example_dir_not_ready:
  "\<not> output_dir_ready example_env ''../data/bodykinematics.hdf5/sub/x.pickle''"
  by (simp add: output_dir_ready_def dirname_below_file example_env_def)

lemma example_validated:
  "path_exists example_env (args_bodykin example_args)
   \<and> path_exists example_env (args_markerset example_args)
   \<and> 1 \<le> args_num_participants example_args \<and> args_num_participants example_args \<le> 100
   \<and> output_dir_ready example_env (args_output example_args)"
  using example_dir_ready by (simp add: example_env_def example_args_def)

lemma main_body_outcomes:
  "(outcome_of (main_body ev core a) = Returned \<and>
      (\<exists>kw data. core_calls (main_body ev core a) = [kw] \<and> core kw = Inr data \<and> data \<noteq> [] \<and>
         Print (''Total segments:     '' @ str_int (int (length data)))
           \<in> set (trace (main_body ev core a))))
   \<or> (outcome_of (main_body ev core a) = SysExit 1 \<and>
        list_ex is_error_report (trace (main_body ev core a)))
   \<or> (outcome_of (main_body ev core a) = Uncaught OSError \<and>
        core_calls (main_body ev core a) = [] \<and> \<not> output_dir_ready ev (args_output a))
   \<or> (\<exists>kw e. core_calls (main_body ev core a) = [kw] \<and> core kw = Inl e \<and> \<not> is_Exception e \<and>
        outcome_of (main_body ev core a) = leaves_main e)"
proof (cases "path_exists ev (args_bodykin a) \<and> path_exists ev (args_markerset a)
         \<and> 1 \<le> args_num_participants a \<and> args_num_participants a \<le> 100")
  case False
  then show ?thesis
    using outcome_main_body_rejected [of ev a core] error_report_main_body_rejected [of ev a core]
    by blast
next
  case v: True
  show ?thesis
  proof (cases "output_dir_ready ev (args_output a)")
    case False
    then have "outcome_of (main_body ev core a) = Uncaught OSError \<and>
        core_calls (main_body ev core a) = [] \<and> \<not> output_dir_ready ev (args_output a)"
      using v main_body_makedirs_fails [of ev a core]
      by (simp add: core_calls_def trace_def outcome_of_def)
    then show ?thesis
      by blast
  next
    case True
    let ?kw = "\<lparr>bodykinpath = args_bodykin a, markersetpath = args_markerset a,
             outputfile = args_output a, alignMkR = args_align_right a,
             alignMkL = args_align_left a, fs = args_fs a,
             num_participants = args_num_participants a, max_len = args_max_len a\<rparr>"
    from v True obtain t0 where t0: "calls_in t0 = []"
      and mb: "main_body ev core a =
         (case core ?kw of
              Inl e \<Rightarrow>
                (if is_Exception e
                 then (t0 @ [Call ?kw, PrintError e, PrintTraceback e], SysExit 1)
                 else (t0 @ [Call ?kw], leaves_main e))
            | Inr data \<Rightarrow>
                (case summary ev a data of
                   (t1, None) \<Rightarrow> (t0 @ [Call ?kw] @ t1, Returned)
                 | (t1, Some e) \<Rightarrow>
                     (t0 @ [Call ?kw] @ t1 @ [PrintError e, PrintTraceback e], SysExit 1)))"
      using main_body_accepted [of ev a core] by (auto simp add: Let_def)
    have cc: "core_calls (main_body ev core a) = [?kw]"
      using v True by (simp add: core_calls_main_body)
    show ?thesis
    proof (cases "core ?kw")
      case (Inl e)
      show ?thesis
      proof (cases "is_Exception e")
        case True
        then have "outcome_of (main_body ev core a) = SysExit 1 \<and>
            list_ex is_error_report (trace (main_body ev core a))"
          using mb Inl by (simp add: outcome_of_def trace_def)
        then show ?thesis
          by blast
      next
        case False
        then have "outcome_of (main_body ev core a) = leaves_main e"
          using mb Inl by (simp add: outcome_of_def)
        then show ?thesis
          using cc Inl False by blast
      qed
    next
      case (Inr data)
      obtain t1 x where s: "summary ev a data = (t1, x)"
        by (cases "summary ev a data")
      show ?thesis
      proof (cases x)
        case None
        have "data \<noteq> []"
          using s None summary_done_nonempty by blast
        moreover have "Print (''Total segments:     '' @ str_int (int (length data))) \<in> set t1"
          using s summary_prints_total by blast
        moreover have "outcome_of (main_body ev core a) = Returned"
          using mb Inr s None by (simp add: outcome_of_def)
        moreover have "trace (main_body ev core a) = t0 @ [Call ?kw] @ t1"
          using mb Inr s None by (simp add: trace_def)
        ultimately have "outcome_of (main_body ev core a) = Returned \<and>
            (\<exists>kw data. core_calls (main_body ev core a) = [kw] \<and> core kw = Inr data
               \<and> data \<noteq> [] \<and>
               Print (''Total segments:     '' @ str_int (int (length data)))
                 \<in> set (trace (main_body ev core a)))"
          using cc Inr by auto
        then show ?thesis
          by blast
      next
        case (Some e)
        then have "outcome_of (main_body ev core a) = SysExit 1 \<and>
            list_ex is_error_report (trace (main_body ev core a))"
          using mb Inr s by (simp add: outcome_of_def trace_def)
        then show ?thesis
          by blast
      qed
    qed
  qed
qed

lemma main_body_returned:
  "outcome_of (main_body ev core a) = Returned \<Longrightarrow>
     \<exists>kw data. core_calls (main_body ev core a) = [kw] \<and> core kw = Inr data \<and> data \<noteq> [] \<and>
        Print (''Total segments:     '' @ str_int (int (length data)))
          \<in> set (trace (main_body ev core a))"
  using main_body_outcomes [of ev core a] leaves_main_not_Returned
  by (metis outcome.distinct(1) outcome.distinct(3))

lemma main_body_called:
  assumes "core_calls (main_body ev core a) = [kw]"
  shows "path_exists ev (args_bodykin a) \<and> path_exists ev (args_markerset a)
         \<and> 1 \<le> args_num_participants a \<and> args_num_participants a \<le> 100
         \<and> output_dir_ready ev (args_output a)
         \<and> kw = \<lparr>bodykinpath = args_bodykin a, markersetpath = args_markerset a,
             outputfile = args_output a, alignMkR = args_align_right a,
             alignMkL = args_align_left a, fs = args_fs a,
             num_participants = args_num_participants a, max_len = args_max_len a\<rparr>"
  using assms by (simp add: core_calls_main_body split: if_splits)

lemma main_body_exception:
  assumes "core_calls (main_body ev core a) = [kw]" and "core kw = Inl e" and "is_Exception e"
  shows "outcome_of (main_body ev core a) = SysExit 1 \<and>
         (\<exists>t. trace (main_body ev core a) = t @ [Call kw, PrintError e, PrintTraceback e])"
proof -
  note c = main_body_called [OF assms(1)]
  show ?thesis
    using main_body_accepted [of ev a core] c assms(2) assms(3)
    by (auto simp add: Let_def outcome_of_def trace_def)
qed

lemma main_body_interrupted:
  assumes "core_calls (main_body ev core a) = [kw]" and "core kw = Inl e"
    and "\<not> is_Exception e"
  shows "outcome_of (main_body ev core a) = leaves_main e \<and>
         \<not> list_ex is_error_report (trace (main_body ev core a))"
proof -
  note c = main_body_called [OF assms(1)]
  show ?thesis
    using main_body_accepted [of ev a core] c assms(2) assms(3)
    by (auto simp add: Let_def outcome_of_def trace_def)
qed

lemma example_calls: "core_calls (main example_env core example_argv) = [example_kwargs]"
  using example_validated
  by (simp add: main_parsed [OF parse_example] core_calls_main_body)
     (simp add: example_args_def example_kwargs_def)

lemma parse_args_fields:
  "parse_args av = Some a \<Longrightarrow>
     opt_bodykin av = Some (args_bodykin a) \<and> opt_markerset av = Some (args_markerset a)
     \<and> opt_output av = Some (args_output a) \<and> opt_align_right av = Some (args_align_right a)
     \<and> opt_align_left av = Some (args_align_left a) \<and> opt_fs av = Some (args_fs a)
     \<and> opt_num_participants av \<in> {Some (args_num_participants a), None}
     \<and> opt_max_len av \<in> {Some (args_max_len a), None}"
  by (auto simp add: parse_args_def split: option.splits if_splits)



lemma main_body_participants_rejected:
  assumes "args_num_participants a < 1 \<or> args_num_participants a > 100"
  shows "outcome_of (main_body ev core a) = SysExit 1
         \<and> core_calls (main_body ev core a) = []
         \<and> list_ex is_error_report (trace (main_body ev core a))
         \<and> (\<forall>e. PrintError e \<notin> set (trace (main_body ev core a)))
         \<and> (path_exists ev (args_bodykin a) \<and> path_exists ev (args_markerset a) \<longrightarrow>
              trace (main_body ev core a)
                = [Print ''ERROR: num_participants must be between 1 and 100''])"
  using assms by (auto simp add: main_body_def outcome_of_def core_calls_def trace_def)

lemma str_int_0: "str_int 0 = ''0''"
  by (simp add: str_int_def str_nat.simps digit_char_def)

lemma main_body_empty_dataset:
  assumes "core_calls (main_body ev core a) = [kw]" and "core kw = Inr []"
  shows "outcome_of (main_body ev core a) = SysExit 1 \<and>
         (\<exists>t. calls_in t = [] \<and> trace (main_body ev core a) =
            t @ [Call kw, Print '''', Print rule70, Print ''GENERATION COMPLETE'', Print rule70,
                 Print ''Total segments:     0'', PrintError IndexError,
                 PrintTraceback IndexError])"
proof -
  note c = main_body_called [OF assms(1)]
  show ?thesis
    using main_body_accepted [of ev a core] c assms(2)
    by (auto simp add: Let_def outcome_of_def trace_def summary_empty summary_head_def str_int_0)
qed

lemma main_example_returns:
  "outcome_of (main example_env (\<lambda>kw. Inr [\<lparr>shape = [240, 5, 3]\<rparr>, \<lparr>shape = [60, 5, 3]\<rparr>])
        example_argv) = Returned"
  by (simp add: main_parsed [OF parse_example])
     (simp add: main_body_def outcome_of_def example_env_def example_args_def Let_def
        dirname_example summary_def markers_per_segment_def py_index_def py_min_def py_max_def)

section \<open>Properties of the configuration template\<close>

lemma calls_in_prints: "calls_in (map (\<lambda>w. Print (f w)) ws) = []"
  by (induction ws) simp_all

lemma calls_in_banner: "calls_in (template_banner c) = []"
  by (simp add: template_banner_def)

lemma calls_in_warnings: "calls_in (print_warnings ws) = []"
  by (simp add: print_warnings_def calls_in_append calls_in_prints)

lemma calls_in_errors: "calls_in (print_errors es) = []"
  by (simp add: print_errors_def calls_in_append calls_in_prints)

lemma calls_in_template_summary: "template_summary ev c data = (t, x) \<Longrightarrow> calls_in t = []"
  by (auto simp add: template_summary_def Let_def split: sum.splits)


lemma validate_errors_iff:
  "(fst (validate_config ev c) \<noteq> []) =
     (\<not> path_exists ev (BODYKIN_PATH c) \<or> \<not> path_exists ev (MARKERSET_PATH c)
      \<or> NUM_PARTICIPANTS c < 1 \<or> NUM_PARTICIPANTS c > 100)"
  by (simp add: validate_config_def Let_def)

lemma template_rejected:
  assumes "fst (validate_config ev c) \<noteq> []"
  shows "template_main ev core c =
           (template_banner c @ print_warnings (snd (validate_config ev c))
              @ print_errors (fst (validate_config ev c)), SysExit 1)"
proof -
  obtain es ws where v: "validate_config ev c = (es, ws)"
    by (cases "validate_config ev c")
  with assms show ?thesis
    by (simp add: template_main_def Let_def)
qed



lemma template_makedirs_fails:
  assumes "fst (validate_config ev c) = []" and "lower (response ev) \<in> {''y'', ''yes''}"
    and "\<not> output_dir_ready ev (OUTPUT_PATH c)"
  shows "outcome_of (template_main ev core c) = Uncaught OSError
         \<and> core_calls (template_main ev core c) = []"
proof -
  obtain es ws where v: "validate_config ev c = (es, ws)"
    by (cases "validate_config ev c")
  have es: "es = []"
    using assms(1) v by simp
  have y: "lower (response ev) \<in> set [''y'', ''yes'']"
    using assms(2) by simp
  have r: "dirname (OUTPUT_PATH c) \<noteq> [] \<and> \<not> path_exists ev (dirname (OUTPUT_PATH c))
             \<and> \<not> makedirs_ok ev (dirname (OUTPUT_PATH c))"
    using assms(3) by (simp add: output_dir_ready_def)
  show ?thesis
    using v es y r
    by (simp add: template_main_def Let_def outcome_of_def core_calls_def trace_def
        calls_in_append calls_in_banner calls_in_warnings)
qed

lemma template_confirmed:
  assumes "fst (validate_config ev c) = []" and "lower (response ev) \<in> {''y'', ''yes''}"
    and "output_dir_ready ev (OUTPUT_PATH c)"
  shows "core_calls (template_main ev core c) =
           [\<lparr>bodykinpath = BODYKIN_PATH c, markersetpath = MARKERSET_PATH c,
             outputfile = OUTPUT_PATH c, alignMkR = ALIGN_MARKER_RIGHT c,
             alignMkL = ALIGN_MARKER_LEFT c, fs = SAMPLING_FREQUENCY c,
             num_participants = NUM_PARTICIPANTS c, max_len = MAX_SEGMENT_LENGTH c\<rparr>]"
proof -
  let ?kw = "\<lparr>bodykinpath = BODYKIN_PATH c, markersetpath = MARKERSET_PATH c,
             outputfile = OUTPUT_PATH c, alignMkR = ALIGN_MARKER_RIGHT c,
             alignMkL = ALIGN_MARKER_LEFT c, fs = SAMPLING_FREQUENCY c,
             num_participants = NUM_PARTICIPANTS c, max_len = MAX_SEGMENT_LENGTH c\<rparr>"
  obtain es ws where v: "validate_config ev c = (es, ws)"
    by (cases "validate_config ev c")
  have es: "es = []"
    using assms(1) v by simp
  have y: "lower (response ev) \<in> set [''y'', ''yes'']"
    using assms(2) by simp
  have r: "\<not> (dirname (OUTPUT_PATH c) \<noteq> [] \<and> \<not> path_exists ev (dirname (OUTPUT_PATH c))
             \<and> \<not> makedirs_ok ev (dirname (OUTPUT_PATH c)))"
    using assms(3) by (auto simp add: output_dir_ready_def)
  show ?thesis
  proof (cases "core ?kw")
    case (Inl e)
    then show ?thesis
      using v es y r
      by (simp add: template_main_def Let_def outcome_of_def core_calls_def trace_def
          calls_in_append calls_in_banner calls_in_warnings)
  next
    case (Inr data)
    obtain t3 x where s: "template_summary ev c data = (t3, x)"
      by (cases "template_summary ev c data")
    have "calls_in t3 = []"
      using s by (rule calls_in_template_summary)
    then show ?thesis
      using v es y r Inr s
      by (cases x)
         (simp_all add: template_main_def Let_def outcome_of_def core_calls_def trace_def
            calls_in_append calls_in_banner calls_in_warnings)
  qed
qed


lemma lower_y: "lower ''y'' = ''y''"
  by (simp add: lower_def lower_char_def)


lemma template_participants_rejected:
  assumes "NUM_PARTICIPANTS c < 1 \<or> NUM_PARTICIPANTS c > 100"
  shows "outcome_of (template_main ev core c) = SysExit 1
         \<and> core_calls (template_main ev core c) = []
         \<and> Print (''    NUM_PARTICIPANTS must be 1-100, got '' @ str_int (NUM_PARTICIPANTS c))
              \<in> set (trace (template_main ev core c))"
proof -
  have e: "fst (validate_config ev c) \<noteq> []"
    using assms validate_errors_iff [of ev c] by blast
  have m: "(''NUM_PARTICIPANTS must be 1-100, got '' @ str_int (NUM_PARTICIPANTS c))
             \<in> set (fst (validate_config ev c))"
    using assms by (auto simp add: validate_config_def Let_def)
  have "Print (''    '' @ (''NUM_PARTICIPANTS must be 1-100, got '' @ str_int (NUM_PARTICIPANTS c)))
          \<in> set (print_errors (fst (validate_config ev c)))"
    using m by (simp add: print_errors_def)
  then show ?thesis
    using e
    by (simp add: template_rejected outcome_of_def core_calls_def trace_def calls_in_append
        calls_in_banner calls_in_warnings calls_in_errors)
qed

section \<open>Properties of the Segmenter\<close>

lemma chunks_Nil: "chunks M [] = []"
  by (simp add: chunks.simps)

lemma chunks_step:
  "0 < M \<Longrightarrow> xs \<noteq> [] \<Longrightarrow> chunks M xs = take M xs # chunks M (drop M xs)"
  by (subst chunks.simps) simp

lemma chunks_eq_Nil: "0 < M \<Longrightarrow> (chunks M xs = []) = (xs = [])"
  by (cases "xs = []") (simp_all add: chunks_Nil chunks_step)

lemma concat_chunks: "0 < M \<Longrightarrow> concat (chunks M xs) = xs"
proof (induction M xs rule: chunks.induct)
  case (1 M xs)
  show ?case
  proof (cases "xs = []")
    case True
    then show ?thesis by (simp add: chunks_Nil)
  next
    case False
    with 1 show ?thesis by (simp add: chunks_step)
  qed
qed

lemma concat_take_chunks: "0 < M \<Longrightarrow> concat (take k (chunks M xs)) = take (k * M) xs"
proof (induction M xs arbitrary: k rule: chunks.induct)
  case (1 M xs)
  show ?case
  proof (cases "xs = []")
    case True
    then show ?thesis by (simp add: chunks_Nil)
  next
    case False
    show ?thesis
    proof (cases k)
      case 0
      then show ?thesis by simp
    next
      case (Suc j)
      have "concat (take j (chunks M (drop M xs))) = take (j * M) (drop M xs)"
        using 1 False by simp
      then have "concat (take k (chunks M xs)) = take M xs @ take (j * M) (drop M xs)"
        using 1(2) False Suc by (simp add: chunks_step)
      also have "\<dots> = take (M + j * M) xs"
        by (simp add: take_add)
      finally show ?thesis
        using Suc by simp
    qed
  qed
qed

lemma length_chunks: "0 < M \<Longrightarrow> length (chunks M xs) = (length xs + M - 1) div M"
proof (induction M xs rule: chunks.induct)
  case (1 M xs)
  show ?case
  proof (cases "xs = []")
    case True
    then show ?thesis
      using 1(2) by (simp add: chunks_Nil)
  next
    case False
    then have ih: "length (chunks M (drop M xs)) = (length xs - M + M - 1) div M"
      using 1 by simp
    show ?thesis
    proof (cases "length xs \<le> M")
      case True
      obtain n where n: "length xs = Suc n"
        using False by (cases xs) auto
      have lo: "M * 1 \<le> length xs + M - 1"
        unfolding n by simp
      have hi: "length xs + M - 1 < M * Suc 1"
        using True unfolding n by simp
      have "(length xs + M - 1) div M = 1"
        using lo hi by (rule div_nat_eqI)
      then show ?thesis
        using True False 1(2) by (simp add: chunks_step chunks_Nil)
    next
      case gt: False
      then have "length xs + M - 1 = (length xs - M + M - 1) + M"
        using 1(2) by simp
      then have "(length xs + M - 1) div M = Suc ((length xs - M + M - 1) div M)"
        using 1(2) by (metis div_add_self2 less_numeral_extra(3) Suc_eq_plus1)
      then show ?thesis
        using ih False 1(2) by (simp add: chunks_step)
    qed
  qed
qed

lemma nth_chunks:
  "0 < M \<Longrightarrow> k < length (chunks M xs) \<Longrightarrow> chunks M xs ! k = take M (drop (k * M) xs)"
proof (induction M xs arbitrary: k rule: chunks.induct)
  case (1 M xs)
  have ne: "xs \<noteq> []"
    using 1(2,3) by (auto simp add: chunks_Nil)
  show ?case
  proof (cases k)
    case 0
    then show ?thesis
      using ne 1(2) by (simp add: chunks_step)
  next
    case (Suc j)
    then have "j < length (chunks M (drop M xs))"
      using 1(2,3) ne by (simp add: chunks_step)
    then have "chunks M (drop M xs) ! j = take M (drop (j * M) (drop M xs))"
      using 1 ne by simp
    then show ?thesis
      using Suc ne 1(2) by (simp add: chunks_step add.commute)
  qed
qed

lemma chunk_start_in_range:
  assumes "0 < M" and "k < length (chunks M xs)"
  shows "k * M < length xs"
proof -
  have "k < (length xs + M - 1) div M"
    using assms by (simp add: length_chunks)
  then have "Suc k \<le> (length xs + M - 1) div M"
    by simp
  then have "Suc k * M \<le> length xs + M - 1"
    using assms(1) by (simp only: less_eq_div_iff_mult_less_eq)
  then show ?thesis
    using assms(1) by simp
qed

lemma chunks_short: "0 < M \<Longrightarrow> xs \<noteq> [] \<Longrightarrow> length xs \<le> M \<Longrightarrow> chunks M xs = [xs]"
  by (simp add: chunks_step chunks_Nil)

lemma split_take:
  "split traj M = take (length (chunks M traj) - dropped traj M) (chunks M traj)"
proof -
  have "dropWhile all_nan (rev (chunks M traj)) = drop (dropped traj M) (rev (chunks M traj))"
    unfolding dropped_def by (rule dropWhile_eq_drop)
  then show ?thesis
    by (simp add: split_def rev_drop)
qed

lemma length_split: "length (split traj M) = length (chunks M traj) - dropped traj M"
  by (simp add: split_take)

lemma concat_split:
  "0 < M \<Longrightarrow>
   concat (split traj M) = take ((length (chunks M traj) - dropped traj M) * M) traj"
  by (simp add: split_take concat_take_chunks)

lemma dropped_zero:
  assumes "chunks M traj \<noteq> []" and "\<not> all_nan (last (chunks M traj))"
  shows "dropped traj M = 0"
proof -
  have "hd (rev (chunks M traj)) = last (chunks M traj)"
    using assms(1) by (simp add: hd_rev)
  then have "takeWhile all_nan (rev (chunks M traj)) = []"
    using assms(2) by (simp add: takeWhile_eq_Nil_iff)
  then show ?thesis
    by (simp add: dropped_def)
qed

lemma split_last_valid:
  assumes "split traj M \<noteq> []"
  shows "\<not> all_nan (last (split traj M))"
proof -
  let ?d = "dropWhile all_nan (rev (chunks M traj))"
  have ne: "?d \<noteq> []"
    using assms by (simp add: split_def)
  then have "\<not> all_nan (hd ?d)"
    by (rule hd_dropWhile)
  moreover have "last (split traj M) = hd ?d"
    using ne by (simp add: split_def last_rev)
  ultimately show ?thesis
    by simp
qed

lemma split_slices:
  assumes "0 < M" and "s \<in> set (split t M)"
  shows "\<exists>k. k * M < length t \<and> s = take M (drop (k * M) t)"
proof -
  have "s \<in> set (chunks M t)"
    using assms(2) by (auto simp add: split_take dest: in_set_takeD)
  then obtain k where k: "k < length (chunks M t)" and s: "s = chunks M t ! k"
    by (auto simp add: in_set_conv_nth)
  have "k * M < length t"
    using assms(1) k by (rule chunk_start_in_range)
  moreover have "s = take M (drop (k * M) t)"
    using s assms(1) k by (simp add: nth_chunks)
  ultimately show ?thesis
    by blast
qed

lemma split_trials_slices:
  assumes "0 < M" and "s \<in> set (split_trials trials M)"
  shows "\<exists>t \<in> set trials. \<exists>k. k * M < length t \<and> s = take M (drop (k * M) t)"
proof -
  obtain t where t: "t \<in> set trials" and s: "s \<in> set (split t M)"
    using assms(2) by (auto simp add: split_trials_def)
  obtain k where "k * M < length t \<and> s = take M (drop (k * M) t)"
    using split_slices [OF assms(1) s] by blast
  then show ?thesis
    using t by blast
qed

lemma chunks_300_240:
  assumes "length t = 300"
  shows "chunks 240 t = [take 240 t, drop 240 t]"
proof -
  have a: "t \<noteq> []" and b: "drop 240 t \<noteq> []"
    using assms by auto
  have "chunks 240 t = take 240 t # chunks 240 (drop 240 t)"
    using a by (simp add: chunks_step)
  also have "chunks 240 (drop 240 t) = [drop 240 t]"
    using b assms by (simp add: chunks_short)
  finally show ?thesis .
qed

lemma split_300_240:
  assumes "length t = 300" and "\<not> all_nan (drop 240 t)"
  shows "split t 240 = [take 240 t, drop 240 t]"
  using assms by (simp add: split_def chunks_300_240)

section \<open>Properties of forward kinematics and alignment\<close>

lemma align_position_NaN: "(align_position A p = NaN) = (p = NaN)"
  by (cases p) (simp_all add: align_position_def)

lemma marker_track_NaN:
  "segments kin (hostSegment m) \<noteq> None \<Longrightarrow>
   (marker_track kin m f = NaN) = (\<not> host_valid kin m f)"
  by (auto simp add: marker_track_def host_valid_def marker_position_def)

lemma forward_kinematics_result:
  assumes "forward_kinematics ok cat kin = Inr traj"
  shows "list_all (\<lambda>m. segments kin (hostSegment m) \<noteq> None) cat
         \<and> traj = map (\<lambda>f. map (\<lambda>m. marker_track kin m f) cat) [0..<frameCount kin]"
  using assms by (auto simp add: forward_kinematics_def split: if_splits)

lemma aligned_position:
  assumes "forward_kinematics ok cat kin = Inr traj"
    and "f < frameCount kin" and "j < length cat"
  shows "length (apply_alignment A traj) = frameCount kin
         \<and> length (apply_alignment A traj ! f) = length cat
         \<and> (apply_alignment A traj ! f ! j = NaN) = (\<not> host_valid kin (cat ! j) f)"
proof -
  have h: "list_all (\<lambda>m. segments kin (hostSegment m) \<noteq> None) cat"
    and t: "traj = map (\<lambda>f. map (\<lambda>m. marker_track kin m f) cat) [0..<frameCount kin]"
    using forward_kinematics_result [OF assms(1)] by simp_all
  have "segments kin (hostSegment (cat ! j)) \<noteq> None"
    using h assms(3) by (simp add: list_all_length)
  then show ?thesis
    using assms(2,3) t
    by (simp add: apply_alignment_def align_position_NaN marker_track_NaN)
qed

lemma all_valid_no_nan:
  assumes "forward_kinematics ok cat kin = Inr traj"
    and "\<forall>f j. f < frameCount kin \<and> j < length cat \<longrightarrow> host_valid kin (cat ! j) f"
    and "fr \<in> set (apply_alignment A traj)"
  shows "NaN \<notin> set fr"
proof
  assume n: "NaN \<in> set fr"
  obtain f where f: "f < length (apply_alignment A traj)" and fr: "fr = apply_alignment A traj ! f"
    using assms(3) by (auto simp add: in_set_conv_nth)
  have len: "length (apply_alignment A traj) = frameCount kin"
    using forward_kinematics_result [OF assms(1)] by (simp add: apply_alignment_def)
  obtain j where j: "j < length fr" and p: "fr ! j = NaN"
    using n by (auto simp add: in_set_conv_nth)
  have "length fr = length cat"
    using forward_kinematics_result [OF assms(1)] f fr len by (simp add: apply_alignment_def)
  then have jc: "j < length cat"
    using j by simp
  have "(apply_alignment A traj ! f ! j = NaN) = (\<not> host_valid kin (cat ! j) f)"
    using aligned_position [OF assms(1) _ jc, of f A] f len by simp
  then show False
    using p fr assms(2) f len jc by simp
qed

lemma set_split_frames:
  assumes "0 < M" and "s \<in> set (split traj M)" and "fr \<in> set s"
  shows "fr \<in> set traj"
proof -
  have "s \<in> set (chunks M traj)"
    using assms(2) by (auto simp add: split_take dest: in_set_takeD)
  then have "fr \<in> set (concat (chunks M traj))"
    using assms(3) by auto
  then show ?thesis
    using assms(1) by (simp add: concat_chunks)
qed

section \<open>The example trials\<close>

lemma example_frame_valid: "\<not> list_all (\<lambda>p. p = NaN) example_frame"
  by (simp add: example_frame_def)

lemma example_trial300_tail: "\<not> all_nan (drop 240 example_trial300)"
  by (simp add: example_trial300_def all_nan_def list_all_iff example_frame_def)

lemma dropout_segments:
  "trial_segments (\<lambda>R. True) identity_frame 240 example_catalog dropout_trial =
     Inr [[[At (1, 0, 0), At (- 1, 0, 0), At (0, 1, 0)],
           [At (1, 0, 0), At (- 1, 0, 0), NaN]]]"
  by (simp add: trial_segments_def forward_kinematics_def rotations_ok_def marker_track_def
      marker_position_def motion_valid_def example_catalog_def dropout_trial_def
      steady_motion_def identity3_def identity_frame_def apply_alignment_def
      align_position_def mat_vec_def dot_def vadd_def vsub_def hadamard_def transpose3_def
      split_def chunks.simps all_nan_def upt_rec)

lemma steady_segments:
  "trial_segments (\<lambda>R. True) identity_frame 240 example_catalog steady_trial =
     Inr [[[At (1, 0, 0), At (- 1, 0, 0), At (0, 1, 0)],
           [At (1, 0, 0), At (- 1, 0, 0), At (0, 1, 0)]]]"
  by (simp add: trial_segments_def forward_kinematics_def rotations_ok_def marker_track_def
      marker_position_def motion_valid_def example_catalog_def steady_trial_def
      steady_motion_def identity3_def identity_frame_def apply_alignment_def
      align_position_def mat_vec_def dot_def vadd_def vsub_def hadamard_def transpose3_def
      split_def chunks.simps all_nan_def upt_rec)

lemma steady_trial_valid:
  "\<forall>f j. f < frameCount steady_trial \<and> j < length example_catalog \<longrightarrow>
     host_valid steady_trial (example_catalog ! j) f"
proof (intro allI impI)
  fix f j
  assume "f < frameCount steady_trial \<and> j < length example_catalog"
  then have "(f = 0 \<or> f = 1) \<and> (j = 0 \<or> j = 1 \<or> j = 2)"
    by (auto simp add: steady_trial_def example_catalog_def)
  then show "host_valid steady_trial (example_catalog ! j) f"
    by (auto simp add: host_valid_def steady_trial_def example_catalog_def steady_motion_def
        motion_valid_def)
qed

section \<open>Claims about the drivers\<close>

subsection \<open>C1: a participant count outside 1..100\<close>

text \<open>
  Claim C1 says that a run with a participant count above 100 or below 1 fails with a
  \<^verbatim>\<open>ConfigError\<close> before any trial is processed, and that the wrapper and the template
  reject such a count before invoking the core.

  The rejection is there, but it is not an exception: at \<^verbatim>\<open>--num-participants 101\<close>, with
  both input files present, the wrapper prints one line and calls \<^verbatim>\<open>sys.exit(1)\<close>. The
  run below is given a core that would raise \<^verbatim>\<open>ConfigError\<close> on every call; the run
  neither ends in that exception nor reports it, because the core is never reached.
\<close>

theorem participants_rejection_raises_no_ConfigError:
  "outcome_of (main example_env (\<lambda>kw. Inl ConfigError)
                 (example_argv\<lparr>opt_num_participants := Some 101\<rparr>)) = SysExit 1
   \<and> trace (main example_env (\<lambda>kw. Inl ConfigError)
               (example_argv\<lparr>opt_num_participants := Some 101\<rparr>))
        = [Print ''ERROR: num_participants must be between 1 and 100'']
   \<and> outcome_of (main example_env (\<lambda>kw. Inl ConfigError)
                 (example_argv\<lparr>opt_num_participants := Some 101\<rparr>)) \<noteq> Uncaught ConfigError
   \<and> PrintError ConfigError
        \<notin> set (trace (main example_env (\<lambda>kw. Inl ConfigError)
                         (example_argv\<lparr>opt_num_participants := Some 101\<rparr>)))"
  by (simp add: main_parsed [OF parse_example_upd])
     (simp add: main_body_def outcome_of_def trace_def example_env_def example_args_def)

text \<open>
  C1, as amended: for every command line that parses to a participant count below 1 or
  above 100, the wrapper ends with exit status 1, never calls the core, prints an error
  line and reports no exception; when both input files exist the only output is the
  line \<^verbatim>\<open>ERROR: num_participants must be between 1 and 100\<close>. For every configuration
  with \<^verbatim>\<open>NUM_PARTICIPANTS\<close> below 1 or above 100, the template ends with exit status 1,
  never calls the core, and prints the message \<^verbatim>\<open>NUM_PARTICIPANTS must be 1-100, got n\<close>.
\<close>

theorem participants_out_of_range_rejected:
  "(parse_args av = Some a
      \<and> (args_num_participants a < 1 \<or> args_num_participants a > 100) \<longrightarrow>
      outcome_of (main ev core av) = SysExit 1
      \<and> core_calls (main ev core av) = []
      \<and> list_ex is_error_report (trace (main ev core av))
      \<and> (\<forall>e. PrintError e \<notin> set (trace (main ev core av)))
      \<and> (path_exists ev (args_bodykin a) \<and> path_exists ev (args_markerset a) \<longrightarrow>
           trace (main ev core av)
             = [Print ''ERROR: num_participants must be between 1 and 100'']))
   \<and> (NUM_PARTICIPANTS c < 1 \<or> NUM_PARTICIPANTS c > 100 \<longrightarrow>
        outcome_of (template_main ev core c) = SysExit 1
        \<and> core_calls (template_main ev core c) = []
        \<and> Print (''    NUM_PARTICIPANTS must be 1-100, got '' @ str_int (NUM_PARTICIPANTS c))
             \<in> set (trace (template_main ev core c)))"
  using main_body_participants_rejected [of a ev core]
        template_participants_rejected [of c ev core]
  by (auto simp add: main_parsed)

text \<open>
  The theorem at \<^verbatim>\<open>--num-participants 0\<close> for the wrapper and at
  \<^verbatim>\<open>NUM_PARTICIPANTS = 101\<close> for the template.
\<close>

theorem participants_out_of_range_rejected_witness:
  "parse_args (example_argv\<lparr>opt_num_participants := Some 0\<rparr>)
     = Some (example_args\<lparr>args_num_participants := 0\<rparr>)
   \<and> args_num_participants (example_args\<lparr>args_num_participants := 0\<rparr>) < 1
   \<and> path_exists example_env (args_bodykin (example_args\<lparr>args_num_participants := 0\<rparr>))
   \<and> path_exists example_env (args_markerset (example_args\<lparr>args_num_participants := 0\<rparr>))
   \<and> outcome_of (main example_env (\<lambda>kw. Inr [])
                   (example_argv\<lparr>opt_num_participants := Some 0\<rparr>)) = SysExit 1
   \<and> core_calls (main example_env (\<lambda>kw. Inr [])
                   (example_argv\<lparr>opt_num_participants := Some 0\<rparr>)) = []
   \<and> trace (main example_env (\<lambda>kw. Inr []) (example_argv\<lparr>opt_num_participants := Some 0\<rparr>))
        = [Print ''ERROR: num_participants must be between 1 and 100'']
   \<and> NUM_PARTICIPANTS (template_config\<lparr>NUM_PARTICIPANTS := 101\<rparr>) > 100
   \<and> outcome_of (template_main example_env (\<lambda>kw. Inr [])
                   (template_config\<lparr>NUM_PARTICIPANTS := 101\<rparr>)) = SysExit 1
   \<and> core_calls (template_main example_env (\<lambda>kw. Inr [])
                   (template_config\<lparr>NUM_PARTICIPANTS := 101\<rparr>)) = []
   \<and> Print ''    NUM_PARTICIPANTS must be 1-100, got 101''
        \<in> set (trace (template_main example_env (\<lambda>kw. Inr [])
                        (template_config\<lparr>NUM_PARTICIPANTS := 101\<rparr>)))"
proof -
  have s: "str_int 101 = ''101''"
    by (simp add: str_int_def str_nat.simps digit_char_def)
  have b: "path_exists example_env (args_bodykin (example_args\<lparr>args_num_participants := 0\<rparr>))
   \<and> path_exists example_env (args_markerset (example_args\<lparr>args_num_participants := 0\<rparr>))"
    by (simp add: example_env_def example_args_def)
  show ?thesis
    using participants_out_of_range_rejected
            [of "example_argv\<lparr>opt_num_participants := Some 0\<rparr>"
                "example_args\<lparr>args_num_participants := 0\<rparr>"
                example_env "\<lambda>kw. Inr []" "template_config\<lparr>NUM_PARTICIPANTS := 101\<rparr>"]
          parse_example_upd [of 0] b s
    by simp
qed

subsection \<open>C5: the core is reached only with validated arguments\<close>

text \<open>
  C5: in every run of the wrapper, each call of the core carries paths of a
  body-kinematics file and of a marker-set file that exist and a participant count
  between 1 and 100; a run that calls the core at all has parsed its command line to
  such arguments; and a run whose parsed arguments violate one of the three conditions
  ends with \<^verbatim>\<open>sys.exit(1)\<close> without calling the core.
\<close>

theorem wrapper_calls_core_only_validated:
  "list_all (\<lambda>kw. path_exists ev (bodykinpath kw) \<and> path_exists ev (markersetpath kw)
              \<and> 1 \<le> num_participants kw \<and> num_participants kw \<le> 100)
     (core_calls (main ev core av))
   \<and> (core_calls (main ev core av) \<noteq> [] \<longrightarrow>
        (\<exists>a. parse_args av = Some a \<and> path_exists ev (args_bodykin a)
           \<and> path_exists ev (args_markerset a)
           \<and> 1 \<le> args_num_participants a \<and> args_num_participants a \<le> 100))
   \<and> (parse_args av = Some a
        \<and> \<not> (path_exists ev (args_bodykin a) \<and> path_exists ev (args_markerset a)
               \<and> 1 \<le> args_num_participants a \<and> args_num_participants a \<le> 100)
        \<longrightarrow> outcome_of (main ev core av) = SysExit 1 \<and> core_calls (main ev core av) = [])"
proof (cases "parse_args av")
  case None
  then show ?thesis
    by (simp add: main_unparsed core_calls_parse_exit)
next
  case (Some b)
  then show ?thesis
    using outcome_main_body_rejected [of ev b core]
    by (auto simp add: main_parsed core_calls_main_body)
qed

text \<open>
  The theorem on the example command line (the core is called) and on the same command
  line with \<^verbatim>\<open>--num-participants 101\<close> (exit status 1, no call).
\<close>

theorem wrapper_calls_core_only_validated_witness:
  "core_calls (main example_env (\<lambda>kw. Inr []) example_argv) \<noteq> []
   \<and> parse_args example_argv = Some example_args
   \<and> path_exists example_env (args_bodykin example_args)
   \<and> path_exists example_env (args_markerset example_args)
   \<and> 1 \<le> args_num_participants example_args \<and> args_num_participants example_args \<le> 100
   \<and> parse_args (example_argv\<lparr>opt_num_participants := Some 101\<rparr>)
        = Some (example_args\<lparr>args_num_participants := 101\<rparr>)
   \<and> \<not> args_num_participants (example_args\<lparr>args_num_participants := 101\<rparr>) \<le> 100
   \<and> outcome_of (main example_env (\<lambda>kw. Inr []) (example_argv\<lparr>opt_num_participants := Some 101\<rparr>))
        = SysExit 1
   \<and> core_calls (main example_env (\<lambda>kw. Inr []) (example_argv\<lparr>opt_num_participants := Some 101\<rparr>)) = []"
proof -
  have p: "parse_args example_argv = Some example_args"
    by (rule parse_example)
  have q: "parse_args (example_argv\<lparr>opt_num_participants := Some 101\<rparr>)
        = Some (example_args\<lparr>args_num_participants := 101\<rparr>)"
    by (rule parse_example_upd)
  have c: "core_calls (main example_env (\<lambda>kw. Inr []) example_argv) \<noteq> []"
    by (simp add: example_calls)
  have v: "path_exists example_env (args_bodykin example_args)
   \<and> path_exists example_env (args_markerset example_args)
   \<and> 1 \<le> args_num_participants example_args \<and> args_num_participants example_args \<le> 100"
    using example_validated by simp
  have n: "\<not> args_num_participants (example_args\<lparr>args_num_participants := 101\<rparr>) \<le> 100"
    by simp
  show ?thesis
    using wrapper_calls_core_only_validated
            [of example_env "\<lambda>kw. Inr []" "example_argv\<lparr>opt_num_participants := Some 101\<rparr>"
                "example_args\<lparr>args_num_participants := 101\<rparr>"]
          wrapper_calls_core_only_validated
            [of example_env "\<lambda>kw. Inr []" example_argv example_args]
          p q c v n
    by simp
qed

subsection \<open>C6: one call, every field passed on unchanged\<close>

text \<open>
  Claim C6 says that for every argument set that passes validation the wrapper calls the
  core exactly once, with each field of the configuration passed on unmodified, and
  that the template passes its module constants in the same way.

  Between the validation and the call stands \<^verbatim>\<open>os.makedirs(output_dir)\<close>, outside the
  \<^verbatim>\<open>try\<close>. At \<^verbatim>\<open>--output ../data/bodykinematics.hdf5/sub/x.pickle\<close> the three checks pass
  (both input files exist, the participant count is 100), the directory of the output
  file does not exist and cannot be created, because \<^verbatim>\<open>../data/bodykinematics.hdf5\<close> is a
  file: \<^verbatim>\<open>os.makedirs\<close> raises, the exception leaves \<^verbatim>\<open>main\<close>, and the core is not called.
\<close>

theorem validated_run_never_reaches_core:
  "parse_args (example_argv\<lparr>opt_output := Some ''../data/bodykinematics.hdf5/sub/x.pickle''\<rparr>)
     = Some (example_args\<lparr>args_output := ''../data/bodykinematics.hdf5/sub/x.pickle''\<rparr>)
   \<and> path_exists example_env
        (args_bodykin (example_args\<lparr>args_output := ''../data/bodykinematics.hdf5/sub/x.pickle''\<rparr>))
   \<and> path_exists example_env
        (args_markerset (example_args\<lparr>args_output := ''../data/bodykinematics.hdf5/sub/x.pickle''\<rparr>))
   \<and> 1 \<le> args_num_participants
             (example_args\<lparr>args_output := ''../data/bodykinematics.hdf5/sub/x.pickle''\<rparr>)
   \<and> args_num_participants
        (example_args\<lparr>args_output := ''../data/bodykinematics.hdf5/sub/x.pickle''\<rparr>) \<le> 100
   \<and> core_calls (main example_env (\<lambda>kw. Inr [\<lparr>shape = [240, 5, 3]\<rparr>])
        (example_argv\<lparr>opt_output := Some ''../data/bodykinematics.hdf5/sub/x.pickle''\<rparr>)) = []
   \<and> main example_env (\<lambda>kw. Inr [\<lparr>shape = [240, 5, 3]\<rparr>])
        (example_argv\<lparr>opt_output := Some ''../data/bodykinematics.hdf5/sub/x.pickle''\<rparr>)
      = ([Makedirs ''../data/bodykinematics.hdf5/sub''], Uncaught OSError)"
proof -
  let ?a = "example_args\<lparr>args_output := ''../data/bodykinematics.hdf5/sub/x.pickle''\<rparr>"
  have v: "path_exists example_env (args_bodykin ?a) \<and> path_exists example_env (args_markerset ?a)
      \<and> 1 \<le> args_num_participants ?a \<and> args_num_participants ?a \<le> 100"
    by (simp add: example_env_def example_args_def)
  have n: "\<not> output_dir_ready example_env (args_output ?a)"
    using example_dir_not_ready by simp
  have m: "main_body example_env (\<lambda>kw. Inr [\<lparr>shape = [240, 5, 3]\<rparr>]) ?a
             = ([Makedirs ''../data/bodykinematics.hdf5/sub''], Uncaught OSError)"
    using main_body_makedirs_fails [of example_env ?a "\<lambda>kw. Inr [\<lparr>shape = [240, 5, 3]\<rparr>]"] v n
    by (simp add: dirname_below_file)
  show ?thesis
    using v m
    by (simp add: main_parsed [OF parse_example_output] parse_example_output core_calls_def
        trace_def)
qed

text \<open>
  C6, as amended: when the command line parses and passes the three checks, and the
  directory of the output file is there or can be created, the wrapper calls the core
  exactly once, with \<^verbatim>\<open>bodykinpath\<close>, \<^verbatim>\<open>markersetpath\<close>, \<^verbatim>\<open>outputfile\<close>, \<^verbatim>\<open>alignMkR\<close>,
  \<^verbatim>\<open>alignMkL\<close>, \<^verbatim>\<open>fs\<close>, \<^verbatim>\<open>num_participants\<close> and \<^verbatim>\<open>max_len\<close> equal to the values of
  \<^verbatim>\<open>--bodykin\<close>, \<^verbatim>\<open>--markerset\<close>, \<^verbatim>\<open>--output\<close>, \<^verbatim>\<open>--align-right\<close>, \<^verbatim>\<open>--align-left\<close>, \<^verbatim>\<open>--fs\<close>,
  \<^verbatim>\<open>--num-participants\<close> and \<^verbatim>\<open>--max-len\<close> (the last two being the option's value, or
  its default when the option is absent); when the directory is missing and
  \<^verbatim>\<open>os.makedirs\<close> fails, the run ends with the uncaught \<^verbatim>\<open>OSError\<close> and the core is not
  called. The template passes its eight module constants in the same way, once its
  validation has passed and the user has answered \<^verbatim>\<open>y\<close> or \<^verbatim>\<open>yes\<close> at the prompt, under
  the same condition on the directory of \<^verbatim>\<open>OUTPUT_PATH\<close>, and does not call the core
  either when \<^verbatim>\<open>os.makedirs\<close> fails.
\<close>

theorem core_called_once_when_output_dir_ready:
  "(parse_args av = Some a \<and> path_exists ev (args_bodykin a)
      \<and> path_exists ev (args_markerset a)
      \<and> 1 \<le> args_num_participants a \<and> args_num_participants a \<le> 100
      \<and> output_dir_ready ev (args_output a) \<longrightarrow>
      core_calls (main ev core av) =
        [\<lparr>bodykinpath = args_bodykin a, markersetpath = args_markerset a,
          outputfile = args_output a, alignMkR = args_align_right a,
          alignMkL = args_align_left a, fs = args_fs a,
          num_participants = args_num_participants a, max_len = args_max_len a\<rparr>]
      \<and> opt_bodykin av = Some (args_bodykin a) \<and> opt_markerset av = Some (args_markerset a)
      \<and> opt_output av = Some (args_output a) \<and> opt_align_right av = Some (args_align_right a)
      \<and> opt_align_left av = Some (args_align_left a) \<and> opt_fs av = Some (args_fs a)
      \<and> opt_num_participants av \<in> {Some (args_num_participants a), None}
      \<and> opt_max_len av \<in> {Some (args_max_len a), None})
   \<and> (parse_args av = Some a \<and> path_exists ev (args_bodykin a)
        \<and> path_exists ev (args_markerset a)
        \<and> 1 \<le> args_num_participants a \<and> args_num_participants a \<le> 100
        \<and> \<not> output_dir_ready ev (args_output a) \<longrightarrow>
        core_calls (main ev core av) = []
        \<and> main ev core av = ([Makedirs (dirname (args_output a))], Uncaught OSError))
   \<and> (path_exists ev (BODYKIN_PATH c) \<and> path_exists ev (MARKERSET_PATH c)
        \<and> 1 \<le> NUM_PARTICIPANTS c \<and> NUM_PARTICIPANTS c \<le> 100
        \<and> lower (response ev) \<in> {''y'', ''yes''}
        \<and> output_dir_ready ev (OUTPUT_PATH c) \<longrightarrow>
        core_calls (template_main ev core c) =
          [\<lparr>bodykinpath = BODYKIN_PATH c, markersetpath = MARKERSET_PATH c,
            outputfile = OUTPUT_PATH c, alignMkR = ALIGN_MARKER_RIGHT c,
            alignMkL = ALIGN_MARKER_LEFT c, fs = SAMPLING_FREQUENCY c,
            num_participants = NUM_PARTICIPANTS c, max_len = MAX_SEGMENT_LENGTH c\<rparr>])
   \<and> (path_exists ev (BODYKIN_PATH c) \<and> path_exists ev (MARKERSET_PATH c)
        \<and> 1 \<le> NUM_PARTICIPANTS c \<and> NUM_PARTICIPANTS c \<le> 100
        \<and> lower (response ev) \<in> {''y'', ''yes''}
        \<and> \<not> output_dir_ready ev (OUTPUT_PATH c) \<longrightarrow>
        core_calls (template_main ev core c) = []
        \<and> outcome_of (template_main ev core c) = Uncaught OSError)"
proof (intro conjI impI)
  assume h: "parse_args av = Some a \<and> path_exists ev (args_bodykin a)
      \<and> path_exists ev (args_markerset a)
      \<and> 1 \<le> args_num_participants a \<and> args_num_participants a \<le> 100
      \<and> output_dir_ready ev (args_output a)"
  then have p: "parse_args av = Some a"
    by simp
  show "core_calls (main ev core av) =
        [\<lparr>bodykinpath = args_bodykin a, markersetpath = args_markerset a,
          outputfile = args_output a, alignMkR = args_align_right a,
          alignMkL = args_align_left a, fs = args_fs a,
          num_participants = args_num_participants a, max_len = args_max_len a\<rparr>]"
    using h by (simp add: main_parsed core_calls_main_body)
  show "opt_bodykin av = Some (args_bodykin a)" "opt_markerset av = Some (args_markerset a)"
    "opt_output av = Some (args_output a)" "opt_align_right av = Some (args_align_right a)"
    "opt_align_left av = Some (args_align_left a)" "opt_fs av = Some (args_fs a)"
    "opt_num_participants av \<in> {Some (args_num_participants a), None}"
    "opt_max_len av \<in> {Some (args_max_len a), None}"
    using parse_args_fields [OF p] by simp_all
next
  assume h: "parse_args av = Some a \<and> path_exists ev (args_bodykin a)
        \<and> path_exists ev (args_markerset a)
        \<and> 1 \<le> args_num_participants a \<and> args_num_participants a \<le> 100
        \<and> \<not> output_dir_ready ev (args_output a)"
  then show "core_calls (main ev core av) = []"
    by (simp add: main_parsed core_calls_main_body)
  show "main ev core av = ([Makedirs (dirname (args_output a))], Uncaught OSError)"
    using h main_body_makedirs_fails [of ev a core] by (simp add: main_parsed)
next
  assume h: "path_exists ev (BODYKIN_PATH c) \<and> path_exists ev (MARKERSET_PATH c)
        \<and> 1 \<le> NUM_PARTICIPANTS c \<and> NUM_PARTICIPANTS c \<le> 100
        \<and> lower (response ev) \<in> {''y'', ''yes''}
        \<and> output_dir_ready ev (OUTPUT_PATH c)"
  then have "fst (validate_config ev c) = []"
    using validate_errors_iff [of ev c] by auto
  then show "core_calls (template_main ev core c) =
          [\<lparr>bodykinpath = BODYKIN_PATH c, markersetpath = MARKERSET_PATH c,
            outputfile = OUTPUT_PATH c, alignMkR = ALIGN_MARKER_RIGHT c,
            alignMkL = ALIGN_MARKER_LEFT c, fs = SAMPLING_FREQUENCY c,
            num_participants = NUM_PARTICIPANTS c, max_len = MAX_SEGMENT_LENGTH c\<rparr>]"
    using h template_confirmed [of ev c core] by simp
next
  assume h: "path_exists ev (BODYKIN_PATH c) \<and> path_exists ev (MARKERSET_PATH c)
        \<and> 1 \<le> NUM_PARTICIPANTS c \<and> NUM_PARTICIPANTS c \<le> 100
        \<and> lower (response ev) \<in> {''y'', ''yes''}
        \<and> \<not> output_dir_ready ev (OUTPUT_PATH c)"
  then have e: "fst (validate_config ev c) = []"
    using validate_errors_iff [of ev c] by auto
  show "core_calls (template_main ev core c) = []"
    using h e template_makedirs_fails [of ev c core] by simp
  show "outcome_of (template_main ev core c) = Uncaught OSError"
    using h e template_makedirs_fails [of ev c core] by simp
qed

text \<open>
  The theorem on the example command line and on the configuration the template ships
  with (one call each), and on both with the output file below
  \<^verbatim>\<open>../data/bodykinematics.hdf5\<close> (no call).
\<close>

theorem core_called_once_when_output_dir_ready_witness:
  "parse_args example_argv = Some example_args
   \<and> path_exists example_env (args_bodykin example_args)
   \<and> path_exists example_env (args_markerset example_args)
   \<and> 1 \<le> args_num_participants example_args \<and> args_num_participants example_args \<le> 100
   \<and> output_dir_ready example_env (args_output example_args)
   \<and> core_calls (main example_env (\<lambda>kw. Inr []) example_argv) =
        [\<lparr>bodykinpath = ''../data/bodykinematics.hdf5'',
          markersetpath = ''../data/MarkerSet.xml'',
          outputfile = ''../data/simulatedTrajectories.pickle'',
          alignMkR = ''RAC'', alignMkL = ''LAC'', fs = 240,
          num_participants = 100, max_len = 240\<rparr>]
   \<and> path_exists example_env (BODYKIN_PATH template_config)
   \<and> path_exists example_env (MARKERSET_PATH template_config)
   \<and> 1 \<le> NUM_PARTICIPANTS template_config \<and> NUM_PARTICIPANTS template_config \<le> 100
   \<and> lower (response example_env) \<in> {''y'', ''yes''}
   \<and> output_dir_ready example_env (OUTPUT_PATH template_config)
   \<and> core_calls (template_main example_env (\<lambda>kw. Inr []) template_config) =
        [\<lparr>bodykinpath = ''../data/bodykinematics.hdf5'',
          markersetpath = ''../data/MarkerSet.xml'',
          outputfile = ''../data/simulatedTrajectories.pickle'',
          alignMkR = ''RAC'', alignMkL = ''LAC'', fs = 240,
          num_participants = 100, max_len = 240\<rparr>]
   \<and> parse_args (example_argv\<lparr>opt_output := Some ''../data/bodykinematics.hdf5/sub/x.pickle''\<rparr>)
        = Some (example_args\<lparr>args_output := ''../data/bodykinematics.hdf5/sub/x.pickle''\<rparr>)
   \<and> \<not> output_dir_ready example_env ''../data/bodykinematics.hdf5/sub/x.pickle''
   \<and> core_calls (main example_env (\<lambda>kw. Inr [])
        (example_argv\<lparr>opt_output := Some ''../data/bodykinematics.hdf5/sub/x.pickle''\<rparr>)) = []
   \<and> core_calls (template_main example_env (\<lambda>kw. Inr [])
        (template_config\<lparr>OUTPUT_PATH := ''../data/bodykinematics.hdf5/sub/x.pickle''\<rparr>)) = []
   \<and> outcome_of (template_main example_env (\<lambda>kw. Inr [])
        (template_config\<lparr>OUTPUT_PATH := ''../data/bodykinematics.hdf5/sub/x.pickle''\<rparr>))
        = Uncaught OSError"
proof -
  let ?p = "''../data/bodykinematics.hdf5/sub/x.pickle''"
  let ?a = "example_args\<lparr>args_output := ?p\<rparr>"
  let ?c = "template_config\<lparr>OUTPUT_PATH := ?p\<rparr>"
  note A = core_called_once_when_output_dir_ready
             [of example_argv example_args example_env "\<lambda>kw. Inr []" template_config]
  note B = core_called_once_when_output_dir_ready
             [of "example_argv\<lparr>opt_output := Some ?p\<rparr>" ?a example_env "\<lambda>kw. Inr []" ?c]
  have p: "parse_args example_argv = Some example_args"
    by (rule parse_example)
  have v: "path_exists example_env (args_bodykin example_args)
   \<and> path_exists example_env (args_markerset example_args)
   \<and> 1 \<le> args_num_participants example_args \<and> args_num_participants example_args \<le> 100
   \<and> output_dir_ready example_env (args_output example_args)"
    by (rule example_validated)
  have t: "path_exists example_env (BODYKIN_PATH template_config)
   \<and> path_exists example_env (MARKERSET_PATH template_config)
   \<and> 1 \<le> NUM_PARTICIPANTS template_config \<and> NUM_PARTICIPANTS template_config \<le> 100
   \<and> lower (response example_env) \<in> {''y'', ''yes''}"
    by (simp add: example_env_def template_config_def lower_y)
  have r: "output_dir_ready example_env (OUTPUT_PATH template_config)"
    using example_dir_ready by (simp add: template_config_def)
  have q: "parse_args (example_argv\<lparr>opt_output := Some ?p\<rparr>) = Some ?a"
    by (rule parse_example_output)
  have n: "\<not> output_dir_ready example_env ?p"
    by (rule example_dir_not_ready)
  have va: "path_exists example_env (args_bodykin ?a) \<and> path_exists example_env (args_markerset ?a)
      \<and> 1 \<le> args_num_participants ?a \<and> args_num_participants ?a \<le> 100
      \<and> \<not> output_dir_ready example_env (args_output ?a)"
    using n by (simp add: example_env_def example_args_def)
  have tc: "path_exists example_env (BODYKIN_PATH ?c) \<and> path_exists example_env (MARKERSET_PATH ?c)
      \<and> 1 \<le> NUM_PARTICIPANTS ?c \<and> NUM_PARTICIPANTS ?c \<le> 100
      \<and> lower (response example_env) \<in> {''y'', ''yes''}
      \<and> \<not> output_dir_ready example_env (OUTPUT_PATH ?c)"
    using n t by (simp add: template_config_def)
  have a1: "core_calls (main example_env (\<lambda>kw. Inr []) example_argv) =
        [\<lparr>bodykinpath = ''../data/bodykinematics.hdf5'',
          markersetpath = ''../data/MarkerSet.xml'',
          outputfile = ''../data/simulatedTrajectories.pickle'',
          alignMkR = ''RAC'', alignMkL = ''LAC'', fs = 240,
          num_participants = 100, max_len = 240\<rparr>]"
    using A p v by (simp add: example_args_def)
  have a2: "core_calls (template_main example_env (\<lambda>kw. Inr []) template_config) =
        [\<lparr>bodykinpath = ''../data/bodykinematics.hdf5'',
          markersetpath = ''../data/MarkerSet.xml'',
          outputfile = ''../data/simulatedTrajectories.pickle'',
          alignMkR = ''RAC'', alignMkL = ''LAC'', fs = 240,
          num_participants = 100, max_len = 240\<rparr>]"
    using A t r by (simp add: template_config_def)
  have b1: "core_calls (main example_env (\<lambda>kw. Inr []) (example_argv\<lparr>opt_output := Some ?p\<rparr>)) = []"
    using B q va by blast
  have b2: "core_calls (template_main example_env (\<lambda>kw. Inr []) ?c) = []
      \<and> outcome_of (template_main example_env (\<lambda>kw. Inr []) ?c) = Uncaught OSError"
    using B tc by blast
  show ?thesis
    using p v t r q n a1 a2 b1 b2 by blast
qed

subsection \<open>C7: how a run of the wrapper ends\<close>

text \<open>
  Claim C7 says that every run of the wrapper either reports the final segment count of
  a non-empty dataset and exits successfully, or terminates with an explicit fatal
  error and a nonzero exit status, an exception raised during generation being printed
  with its traceback before exit status 1.

  A run with \<^verbatim>\<open>-h\<close> (or \<^verbatim>\<open>--help\<close>) is neither: argparse prints the help text and exits
  with status 0, no segment count is reported and there is no error. On the example
  command line with \<^verbatim>\<open>-h\<close> added:
\<close>

theorem help_run_exits_0_without_report:
  "main example_env (\<lambda>kw. Inr [\<lparr>shape = [240, 5, 3]\<rparr>]) (example_argv\<lparr>opt_help := True\<rparr>)
     = ([PrintHelp], SysExit 0)
   \<and> outcome_of (main example_env (\<lambda>kw. Inr [\<lparr>shape = [240, 5, 3]\<rparr>])
        (example_argv\<lparr>opt_help := True\<rparr>)) = SysExit 0
   \<and> core_calls (main example_env (\<lambda>kw. Inr [\<lparr>shape = [240, 5, 3]\<rparr>])
        (example_argv\<lparr>opt_help := True\<rparr>)) = []
   \<and> \<not> list_ex is_error_report (trace (main example_env (\<lambda>kw. Inr [\<lparr>shape = [240, 5, 3]\<rparr>])
        (example_argv\<lparr>opt_help := True\<rparr>)))
   \<and> Print ''Total segments:     1''
        \<notin> set (trace (main example_env (\<lambda>kw. Inr [\<lparr>shape = [240, 5, 3]\<rparr>])
             (example_argv\<lparr>opt_help := True\<rparr>)))"
proof -
  have h: "opt_help (example_argv\<lparr>opt_help := True\<rparr>)"
    by simp
  show ?thesis
    by (simp add: main_help [OF h] outcome_of_def core_calls_def trace_def)
qed

text \<open>
  C7, as amended: every run of the wrapper ends in one of five ways. (1) With \<^verbatim>\<open>-h\<close> it
  prints the help text and exits with status 0, and nothing is generated. (2) It
  returns normally: then the core was called once, returned a non-empty dataset, and
  the line \<^verbatim>\<open>Total segments: n\<close> with the number of its segments was printed. (3) It ends
  with exit status 1, or 2 for a command line argparse rejects, after an error report.
  (4) \<^verbatim>\<open>os.makedirs\<close> fails for the directory of the output file: the \<^verbatim>\<open>OSError\<close> leaves
  \<^verbatim>\<open>main\<close> uncaught, before the core is called. (5) The core is called once and leaves by
  an exception that is not an \<^verbatim>\<open>Exception\<close> (\<^verbatim>\<open>SystemExit\<close>, \<^verbatim>\<open>KeyboardInterrupt\<close>), which
  \<^verbatim>\<open>except Exception\<close> does not catch: the run ends with the status of that
  \<^verbatim>\<open>SystemExit\<close>, or with the exception uncaught.

  Every other exception the core raises, \<^verbatim>\<open>EmptyDatasetError\<close> included, is reported,
  followed by its traceback, and the run ends with exit status 1. A run that ends with
  exit status 0 (by returning or by \<^verbatim>\<open>sys.exit(0)\<close>) is a help request, or has reported
  the segment count of a non-empty dataset, or was ended by the core itself with
  \<^verbatim>\<open>sys.exit(0)\<close>.
\<close>

theorem wrapper_run_outcomes:
  "((opt_help av \<and> main ev core av = ([PrintHelp], SysExit 0))
    \<or> (outcome_of (main ev core av) = Returned \<and>
        (\<exists>kw data. core_calls (main ev core av) = [kw] \<and> core kw = Inr data \<and> data \<noteq> [] \<and>
           Print (''Total segments:     '' @ str_int (int (length data)))
             \<in> set (trace (main ev core av))))
    \<or> (outcome_of (main ev core av) \<in> {SysExit 1, SysExit 2} \<and>
        list_ex is_error_report (trace (main ev core av)))
    \<or> (outcome_of (main ev core av) = Uncaught OSError \<and> core_calls (main ev core av) = [] \<and>
        (\<exists>a. parse_args av = Some a \<and> \<not> output_dir_ready ev (args_output a)))
    \<or> (\<exists>kw e. core_calls (main ev core av) = [kw] \<and> core kw = Inl e \<and> \<not> is_Exception e \<and>
          outcome_of (main ev core av) = leaves_main e))
   \<and> (core_calls (main ev core av) = [kw] \<and> core kw = Inl e \<and> is_Exception e \<longrightarrow>
        outcome_of (main ev core av) = SysExit 1 \<and>
        (\<exists>t. trace (main ev core av) = t @ [Call kw, PrintError e, PrintTraceback e]))
   \<and> (outcome_of (main ev core av) \<in> {Returned, SysExit 0} \<longrightarrow>
        opt_help av
        \<or> (\<exists>kw data. core_calls (main ev core av) = [kw] \<and> core kw = Inr data \<and> data \<noteq> [] \<and>
             Print (''Total segments:     '' @ str_int (int (length data)))
               \<in> set (trace (main ev core av)))
        \<or> (\<exists>kw. core_calls (main ev core av) = [kw] \<and> core kw = Inl (SystemExit 0)))"
proof -
  have A: "(opt_help av \<and> main ev core av = ([PrintHelp], SysExit 0))
    \<or> (outcome_of (main ev core av) = Returned \<and>
        (\<exists>kw data. core_calls (main ev core av) = [kw] \<and> core kw = Inr data \<and> data \<noteq> [] \<and>
           Print (''Total segments:     '' @ str_int (int (length data)))
             \<in> set (trace (main ev core av))))
    \<or> (outcome_of (main ev core av) \<in> {SysExit 1, SysExit 2} \<and>
        list_ex is_error_report (trace (main ev core av)))
    \<or> (outcome_of (main ev core av) = Uncaught OSError \<and> core_calls (main ev core av) = [] \<and>
        (\<exists>a. parse_args av = Some a \<and> \<not> output_dir_ready ev (args_output a)))
    \<or> (\<exists>kw e. core_calls (main ev core av) = [kw] \<and> core kw = Inl e \<and> \<not> is_Exception e \<and>
          outcome_of (main ev core av) = leaves_main e)"
  proof (cases "parse_args av")
    case None
    show ?thesis
    proof (cases "opt_help av")
      case True
      then show ?thesis
        using main_help [of av ev core] by simp
    next
      case False
      then have "outcome_of (main ev core av) \<in> {SysExit 1, SysExit 2} \<and>
          list_ex is_error_report (trace (main ev core av))"
        using None by (simp add: main_usage outcome_of_def trace_def)
      then show ?thesis
        by blast
    qed
  next
    case (Some a)
    then show ?thesis
      using main_body_outcomes [of ev core a]
      by (simp add: main_parsed) blast
  qed
  have B: "core_calls (main ev core av) = [kw] \<and> core kw = Inl e \<and> is_Exception e \<longrightarrow>
        outcome_of (main ev core av) = SysExit 1 \<and>
        (\<exists>t. trace (main ev core av) = t @ [Call kw, PrintError e, PrintTraceback e])"
  proof (cases "parse_args av")
    case None
    then show ?thesis
      by (simp add: main_unparsed core_calls_parse_exit)
  next
    case (Some a)
    then show ?thesis
      using main_body_exception [of ev core a kw e]
      by (simp add: main_parsed)
  qed
  have C: "outcome_of (main ev core av) \<in> {Returned, SysExit 0} \<longrightarrow>
        opt_help av
        \<or> (\<exists>kw data. core_calls (main ev core av) = [kw] \<and> core kw = Inr data \<and> data \<noteq> [] \<and>
             Print (''Total segments:     '' @ str_int (int (length data)))
               \<in> set (trace (main ev core av)))
        \<or> (\<exists>kw. core_calls (main ev core av) = [kw] \<and> core kw = Inl (SystemExit 0))"
  proof
    assume o: "outcome_of (main ev core av) \<in> {Returned, SysExit 0}"
    from A consider
        (c1) "opt_help av"
      | (c2) "\<exists>kw data. core_calls (main ev core av) = [kw] \<and> core kw = Inr data \<and> data \<noteq> [] \<and>
             Print (''Total segments:     '' @ str_int (int (length data)))
               \<in> set (trace (main ev core av))"
      | (c3) "outcome_of (main ev core av) \<in> {SysExit 1, SysExit 2}"
      | (c4) "outcome_of (main ev core av) = Uncaught OSError"
      | (c5) kw' e' where "core_calls (main ev core av) = [kw']" and "core kw' = Inl e'"
          and "outcome_of (main ev core av) = leaves_main e'"
      by blast
    then show "opt_help av
        \<or> (\<exists>kw data. core_calls (main ev core av) = [kw] \<and> core kw = Inr data \<and> data \<noteq> [] \<and>
             Print (''Total segments:     '' @ str_int (int (length data)))
               \<in> set (trace (main ev core av)))
        \<or> (\<exists>kw. core_calls (main ev core av) = [kw] \<and> core kw = Inl (SystemExit 0))"
    proof cases
      case c1
      then show ?thesis by blast
    next
      case c2
      then show ?thesis by blast
    next
      case c3
      then show ?thesis using o by auto
    next
      case c4
      then show ?thesis using o by auto
    next
      case c5
      have "leaves_main e' = SysExit 0"
        using o c5(3) leaves_main_not_Returned [of e'] by auto
      then have "e' = SystemExit 0"
        by (simp add: leaves_main_exit0)
      then show ?thesis
        using c5 by blast
    qed
  qed
  show ?thesis
    using A B C by blast
qed

text \<open>
  The theorem for a core that raises \<^verbatim>\<open>EmptyDatasetError\<close> (reported, exit status 1),
  and for a run that returns.
\<close>

theorem wrapper_run_outcomes_witness:
  "core_calls (main example_env (\<lambda>kw. Inl EmptyDatasetError) example_argv) = [example_kwargs]
   \<and> is_Exception EmptyDatasetError
   \<and> outcome_of (main example_env (\<lambda>kw. Inl EmptyDatasetError) example_argv) = SysExit 1
   \<and> (\<exists>t. trace (main example_env (\<lambda>kw. Inl EmptyDatasetError) example_argv)
           = t @ [Call example_kwargs, PrintError EmptyDatasetError,
                  PrintTraceback EmptyDatasetError])
   \<and> outcome_of (main example_env (\<lambda>kw. Inr [\<lparr>shape = [240, 5, 3]\<rparr>, \<lparr>shape = [60, 5, 3]\<rparr>])
        example_argv) \<in> {Returned, SysExit 0}
   \<and> (\<exists>kw data. core_calls (main example_env
           (\<lambda>kw. Inr [\<lparr>shape = [240, 5, 3]\<rparr>, \<lparr>shape = [60, 5, 3]\<rparr>]) example_argv) = [kw]
         \<and> (Inr [\<lparr>shape = [240, 5, 3]\<rparr>, \<lparr>shape = [60, 5, 3]\<rparr>] :: exn + tensor list) = Inr data
         \<and> data \<noteq> []
         \<and> Print (''Total segments:     '' @ str_int (int (length data)))
             \<in> set (trace (main example_env
                  (\<lambda>kw. Inr [\<lparr>shape = [240, 5, 3]\<rparr>, \<lparr>shape = [60, 5, 3]\<rparr>]) example_argv)))"
proof -
  note E = wrapper_run_outcomes
             [of example_argv example_env "\<lambda>kw. Inl EmptyDatasetError" example_kwargs
                 EmptyDatasetError]
  note R = wrapper_run_outcomes
             [of example_argv example_env
                 "\<lambda>kw. Inr [\<lparr>shape = [240, 5, 3]\<rparr>, \<lparr>shape = [60, 5, 3]\<rparr>]"]
  have c: "core_calls (main example_env (\<lambda>kw. Inl EmptyDatasetError) example_argv)
             = [example_kwargs]"
    by (rule example_calls)
  have e: "outcome_of (main example_env (\<lambda>kw. Inl EmptyDatasetError) example_argv) = SysExit 1
   \<and> (\<exists>t. trace (main example_env (\<lambda>kw. Inl EmptyDatasetError) example_argv)
           = t @ [Call example_kwargs, PrintError EmptyDatasetError,
                  PrintTraceback EmptyDatasetError])"
    using E c by simp
  have r: "outcome_of (main example_env (\<lambda>kw. Inr [\<lparr>shape = [240, 5, 3]\<rparr>, \<lparr>shape = [60, 5, 3]\<rparr>])
        example_argv) \<in> {Returned, SysExit 0}"
    by (simp add: main_example_returns)
  have h: "\<not> opt_help example_argv"
    by (simp add: example_argv_def)
  have d: "\<exists>kw data. core_calls (main example_env
           (\<lambda>kw. Inr [\<lparr>shape = [240, 5, 3]\<rparr>, \<lparr>shape = [60, 5, 3]\<rparr>]) example_argv) = [kw]
         \<and> (Inr [\<lparr>shape = [240, 5, 3]\<rparr>, \<lparr>shape = [60, 5, 3]\<rparr>] :: exn + tensor list) = Inr data
         \<and> data \<noteq> []
         \<and> Print (''Total segments:     '' @ str_int (int (length data)))
             \<in> set (trace (main example_env
                  (\<lambda>kw. Inr [\<lparr>shape = [240, 5, 3]\<rparr>, \<lparr>shape = [60, 5, 3]\<rparr>]) example_argv))"
    using R r h by auto
  show ?thesis
    using c e r d by simp
qed

subsection \<open>C8: the core returns an empty list\<close>

text \<open>
  Claim C8 says that when the core returns an empty list the summary raises, the handler
  catches the exception and the process exits with status 1, so that a success report
  is printed only when at least one segment exists.

  The exception and the exit status are as claimed, but the summary is printed line by
  line and the first failing expression is \<^verbatim>\<open>data[0]\<close>, on the sixth line: by then the
  banner \<^verbatim>\<open>GENERATION COMPLETE\<close> and the line \<^verbatim>\<open>Total segments:     0\<close> are on the
  screen. On the example command line, with a core that returns the empty list:
\<close>

theorem completion_banner_printed_for_empty_dataset:
  "core_calls (main example_env (\<lambda>kw. Inr []) example_argv) = [example_kwargs]
   \<and> (\<lambda>kw. Inr []) example_kwargs = (Inr [] :: exn + tensor list)
   \<and> Print ''GENERATION COMPLETE'' \<in> set (trace (main example_env (\<lambda>kw. Inr []) example_argv))
   \<and> Print ''Total segments:     0''
        \<in> set (trace (main example_env (\<lambda>kw. Inr []) example_argv))"
proof -
  have c: "core_calls (main example_env (\<lambda>kw. Inr []) example_argv) = [example_kwargs]"
    by (rule example_calls)
  obtain t where "trace (main example_env (\<lambda>kw. Inr []) example_argv) =
         t @ [Call example_kwargs, Print '''', Print rule70, Print ''GENERATION COMPLETE'',
              Print rule70, Print ''Total segments:     0'', PrintError IndexError,
              PrintTraceback IndexError]"
    using main_body_empty_dataset [of example_env "\<lambda>kw. Inr []" example_args example_kwargs] c
    by (auto simp add: main_parsed [OF parse_example])
  then show ?thesis
    using c by simp
qed

text \<open>
  C8, as amended: when the core returns an empty list, the wrapper prints the banner
  \<^verbatim>\<open>GENERATION COMPLETE\<close> and the line \<^verbatim>\<open>Total segments:     0\<close>, then \<^verbatim>\<open>data[0]\<close> raises
  \<^verbatim>\<open>IndexError\<close>, the handler reports it with its traceback, nothing else of the summary
  is printed and the process exits with status 1; a run returns normally, with the
  whole summary printed, only when the core returned at least one segment. (On an
  empty list \<^verbatim>\<open>data[0]\<close> raises \<^verbatim>\<open>IndexError\<close>, and \<^verbatim>\<open>min\<close> and \<^verbatim>\<open>max\<close> would raise
  \<^verbatim>\<open>ValueError\<close>.)
\<close>

theorem empty_dataset_fails_after_banner:
  "(core_calls (main ev core av) = [kw] \<and> core kw = Inr [] \<longrightarrow>
      outcome_of (main ev core av) = SysExit 1 \<and>
      (\<exists>t. calls_in t = [] \<and> trace (main ev core av) =
         t @ [Call kw, Print '''', Print rule70, Print ''GENERATION COMPLETE'', Print rule70,
              Print ''Total segments:     0'', PrintError IndexError,
              PrintTraceback IndexError]))
   \<and> (outcome_of (main ev core av) = Returned \<longrightarrow>
        (\<exists>kw data. core_calls (main ev core av) = [kw] \<and> core kw = Inr data \<and> data \<noteq> []))
   \<and> markers_per_segment [] = Inl IndexError
   \<and> py_min [] = Inl ValueError \<and> py_max [] = Inl ValueError"
proof (cases "parse_args av")
  case None
  then show ?thesis
    by (simp add: main_unparsed outcome_parse_exit core_calls_parse_exit
        markers_per_segment_def py_index_def py_min_def py_max_def)
next
  case (Some a)
  have "outcome_of (main_body ev core a) = Returned \<longrightarrow>
        (\<exists>kw data. core_calls (main_body ev core a) = [kw] \<and> core kw = Inr data \<and> data \<noteq> [])"
    using main_body_returned [of ev core a] by blast
  then show ?thesis
    using Some main_body_empty_dataset [of ev core a kw]
    by (simp add: main_parsed markers_per_segment_def py_index_def py_min_def py_max_def)
qed

text \<open>
  The theorem for a core that returns the empty list, and for one that returns two
  segments of 240 and 60 frames.
\<close>

theorem empty_dataset_fails_after_banner_witness:
  "core_calls (main example_env (\<lambda>kw. Inr []) example_argv) = [example_kwargs]
   \<and> outcome_of (main example_env (\<lambda>kw. Inr []) example_argv) = SysExit 1
   \<and> (\<exists>t. calls_in t = [] \<and> trace (main example_env (\<lambda>kw. Inr []) example_argv) =
         t @ [Call example_kwargs, Print '''', Print rule70, Print ''GENERATION COMPLETE'',
              Print rule70, Print ''Total segments:     0'', PrintError IndexError,
              PrintTraceback IndexError])
   \<and> outcome_of (main example_env (\<lambda>kw. Inr [\<lparr>shape = [240, 5, 3]\<rparr>, \<lparr>shape = [60, 5, 3]\<rparr>])
        example_argv) = Returned
   \<and> (\<exists>kw data. core_calls (main example_env
           (\<lambda>kw. Inr [\<lparr>shape = [240, 5, 3]\<rparr>, \<lparr>shape = [60, 5, 3]\<rparr>]) example_argv) = [kw]
         \<and> (Inr [\<lparr>shape = [240, 5, 3]\<rparr>, \<lparr>shape = [60, 5, 3]\<rparr>] :: exn + tensor list)
             = Inr data \<and> data \<noteq> [])"
proof -
  have r: "outcome_of (main example_env (\<lambda>kw. Inr [\<lparr>shape = [240, 5, 3]\<rparr>, \<lparr>shape = [60, 5, 3]\<rparr>])
        example_argv) = Returned"
    by (rule main_example_returns)
  show ?thesis
    using empty_dataset_fails_after_banner
            [of example_env "\<lambda>kw. Inr []" example_argv example_kwargs]
          empty_dataset_fails_after_banner
            [of example_env "\<lambda>kw. Inr [\<lparr>shape = [240, 5, 3]\<rparr>, \<lparr>shape = [60, 5, 3]\<rparr>]" example_argv]
          example_calls [of "\<lambda>kw. Inr []"] r
    by simp
qed

subsection \<open>C9: the defaults of the optional arguments\<close>



subsection \<open>C10: errors and warnings of the template's validation\<close>




section \<open>Claims about the pipeline\<close>

subsection \<open>C2: the Segmenter\<close>

text \<open>
  Claim C2 says that for every trial of \<open>L\<close> frames and every \<open>maxLen = M > 0\<close> the
  Segmenter emits consecutive chunks of \<open>M\<close> frames, the last one holding the remainder,
  that a trial with \<open>L \<le> M\<close> yields exactly one chunk of length \<open>L\<close>, that the number of
  chunks is \<open>ceil(L / M)\<close> minus the dropped trailing all-\<open>NaN\<close> chunks, and that the
  emitted chunks together reconstruct the frames \<open>[0, L)\<close> without gap.

  The last part cannot hold together with the dropping of chunks. A trial of two
  frames whose second frame has no valid marker, split with \<open>maxLen = 1\<close>, gives one
  chunk (which is \<open>ceil(2 / 1) - 1\<close>), and that chunk covers frame 0 only: frame 1 is a
  gap. And a trial of no frame yields no chunk, not one chunk of length 0.
\<close>

theorem dropped_chunk_leaves_gap:
  "split [[At (1, 2, 3)], [NaN]] 1 = [[[At (1, 2, 3)]]]
   \<and> length (split [[At (1, 2, 3)], [NaN]] 1) = (length [[At (1, 2, 3)], [NaN]] + 1 - 1) div 1 - 1
   \<and> concat (split [[At (1, 2, 3)], [NaN]] 1) \<noteq> [[At (1, 2, 3)], [NaN]]
   \<and> length (concat (split [[At (1, 2, 3)], [NaN]] 1)) = 1
   \<and> length [[At (1, 2, 3)], [NaN :: position]] = 2
   \<and> split [] 240 = []"
  by (simp add: split_def chunks.simps all_nan_def)

text \<open>
  C2, as amended: for every trial of \<open>L \<ge> 1\<close> frames and every \<open>maxLen = M > 0\<close>, the
  partition of the trial has \<open>ceil(L / M)\<close> chunks, chunk \<open>k\<close> being the frames from \<open>k * M\<close>
  up to \<open>min (k * M + M) L\<close>: every chunk but the last has exactly \<open>M\<close> frames, the last has
  the remaining \<open>L - (n - 1) * M\<close> frames, between 1 and \<open>M\<close>; a trial with \<open>L \<le> M\<close> has the
  single chunk of all its frames; and the chunks concatenate to the trial. The Segmenter
  emits the partition without its \<open>d\<close> trailing all-\<open>NaN\<close> chunks: \<open>ceil(L / M) - d\<close> chunks,
  which concatenate to the first \<open>(ceil(L / M) - d) * M\<close> frames of the trial, and to the
  whole trial when the last chunk of the partition has a valid value (then \<open>d = 0\<close>).
  Every segment of a dataset is such a slice of one of its trials, so chunks do not
  cross trial boundaries; two trials of 300 frames with valid data in their last 60
  frames and \<open>maxLen = 240\<close> give four segments, of 240, 60, 240 and 60 frames.
\<close>

theorem segmenter_partition:
  assumes "0 < M" and "traj \<noteq> []"
  shows "concat (chunks M traj) = traj
    \<and> length (chunks M traj) = (length traj + M - 1) div M
    \<and> (\<forall>k. k < length (chunks M traj) \<longrightarrow>
          k * M < length traj
          \<and> chunks M traj ! k = take M (drop (k * M) traj)
          \<and> length (chunks M traj ! k) = min M (length traj - k * M))
    \<and> (\<forall>k. Suc k < length (chunks M traj) \<longrightarrow> length (chunks M traj ! k) = M)
    \<and> 0 < length (last (chunks M traj)) \<and> length (last (chunks M traj)) \<le> M
    \<and> length (last (chunks M traj)) = length traj - (length (chunks M traj) - 1) * M
    \<and> (length traj \<le> M \<longrightarrow> chunks M traj = [traj])
    \<and> split traj M = take (length (chunks M traj) - dropped traj M) (chunks M traj)
    \<and> length (split traj M) = (length traj + M - 1) div M - dropped traj M
    \<and> concat (split traj M) = take ((length (chunks M traj) - dropped traj M) * M) traj
    \<and> (\<not> all_nan (last (chunks M traj)) \<longrightarrow>
         dropped traj M = 0 \<and> split traj M = chunks M traj \<and> concat (split traj M) = traj)
    \<and> (\<forall>s \<in> set (split_trials trials M).
          \<exists>t \<in> set trials. \<exists>k. k * M < length t \<and> s = take M (drop (k * M) t))
    \<and> (length t1 = 300 \<and> length t2 = 300 \<and> \<not> all_nan (drop 240 t1) \<and> \<not> all_nan (drop 240 t2)
         \<longrightarrow> map length (split_trials [t1, t2] 240) = [240, 60, 240, 60])"
proof -
  let ?cs = "chunks M traj"
  let ?n = "length ?cs"
  have ne: "?cs \<noteq> []"
    using assms by (simp add: chunks_eq_Nil)
  then have npos: "0 < ?n"
    by simp
  have c1: "concat ?cs = traj"
    using assms(1) by (rule concat_chunks)
  have c2: "?n = (length traj + M - 1) div M"
    using assms(1) by (rule length_chunks)
  have c3: "\<forall>k. k < ?n \<longrightarrow>
          k * M < length traj
          \<and> ?cs ! k = take M (drop (k * M) traj)
          \<and> length (?cs ! k) = min M (length traj - k * M)"
    using assms(1) by (simp add: nth_chunks chunk_start_in_range min.commute)
  have c4: "\<forall>k. Suc k < ?n \<longrightarrow> length (?cs ! k) = M"
  proof (intro allI impI)
    fix k
    assume k: "Suc k < ?n"
    then have "Suc k * M < length traj"
      using assms(1) by (intro chunk_start_in_range)
    then have "M \<le> length traj - k * M"
      by simp
    moreover have "length (?cs ! k) = min M (length traj - k * M)"
      using k assms(1) by (simp add: nth_chunks)
    ultimately show "length (?cs ! k) = M"
      by simp
  qed
  have lst: "last ?cs = ?cs ! (?n - 1)"
    using ne by (rule last_conv_nth)
  have lk: "(?n - 1) * M < length traj"
    using assms(1) npos by (intro chunk_start_in_range) simp_all
  have ll: "length (last ?cs) = min M (length traj - (?n - 1) * M)"
    using assms(1) npos by (simp add: lst nth_chunks)
  have c5: "0 < length (last ?cs) \<and> length (last ?cs) \<le> M"
    using ll lk assms(1) by simp
  have up: "length traj \<le> ?n * M"
  proof -
    have "length (concat (take ?n ?cs)) = length (take (?n * M) traj)"
      using assms(1) by (simp only: concat_take_chunks)
    then show ?thesis
      using c1 by simp
  qed
  have c6: "length (last ?cs) = length traj - (?n - 1) * M"
  proof -
    have "?n * M = (?n - 1) * M + M"
      using npos by (cases ?n) simp_all
    then have "length traj - (?n - 1) * M \<le> M"
      using up by simp
    then show ?thesis
      using ll by simp
  qed
  have c7: "length traj \<le> M \<longrightarrow> ?cs = [traj]"
    using assms by (simp add: chunks_short)
  have c8: "split traj M = take (?n - dropped traj M) ?cs"
    by (rule split_take)
  have c9: "length (split traj M) = (length traj + M - 1) div M - dropped traj M"
    using c2 by (simp add: length_split)
  have c10: "concat (split traj M) = take ((?n - dropped traj M) * M) traj"
    using assms(1) by (rule concat_split)
  have c11: "\<not> all_nan (last ?cs) \<longrightarrow>
         dropped traj M = 0 \<and> split traj M = ?cs \<and> concat (split traj M) = traj"
    using ne c1 by (auto simp add: dropped_zero split_take)
  have c12: "\<forall>s \<in> set (split_trials trials M).
          \<exists>t \<in> set trials. \<exists>k. k * M < length t \<and> s = take M (drop (k * M) t)"
    using assms(1) split_trials_slices [of M _ trials] by blast
  have c13: "length t1 = 300 \<and> length t2 = 300 \<and> \<not> all_nan (drop 240 t1) \<and> \<not> all_nan (drop 240 t2)
         \<longrightarrow> map length (split_trials [t1, t2] 240) = [240, 60, 240, 60]"
    by (simp add: split_trials_def split_300_240)
  show ?thesis
    using c1 c2 c3 c4 c5 c6 c7 c8 c9 c10 c11 c12 c13 by blast
qed

text \<open>
  The theorem on a trial of three frames with \<open>maxLen = 2\<close>, and on two trials of 300
  frames with \<open>maxLen = 240\<close>.
\<close>

theorem segmenter_partition_witness:
  "(0::nat) < 2
   \<and> [example_frame, example_frame, example_frame] \<noteq> []
   \<and> concat (chunks 2 [example_frame, example_frame, example_frame])
        = [example_frame, example_frame, example_frame]
   \<and> length (chunks 2 [example_frame, example_frame, example_frame]) = 2
   \<and> length (last (chunks 2 [example_frame, example_frame, example_frame])) = 1
   \<and> split [example_frame, example_frame, example_frame] 2
        = [[example_frame, example_frame], [example_frame]]
   \<and> length example_trial300 = 300
   \<and> \<not> all_nan (drop 240 example_trial300)
   \<and> map length (split_trials [example_trial300, example_trial300] 240) = [240, 60, 240, 60]"
proof -
  let ?t = "[example_frame, example_frame, example_frame]"
  have c: "chunks 2 ?t = [[example_frame, example_frame], [example_frame]]"
    by (simp add: chunks.simps)
  have v: "\<not> all_nan (last (chunks 2 ?t))"
    by (simp add: c all_nan_def example_frame_valid)
  have l: "length example_trial300 = 300"
    by (simp add: example_trial300_def)
  have p: "(0::nat) < 2" and n: "?t \<noteq> []"
    by simp_all
  note T = segmenter_partition [OF p n, of "[]" example_trial300 example_trial300]
  have t1: "concat (chunks 2 ?t) = ?t"
    using T by blast
  have t2: "length (chunks 2 ?t) = (length ?t + 2 - 1) div 2"
    using T by blast
  have t3: "length (last (chunks 2 ?t)) = length ?t - (length (chunks 2 ?t) - 1) * 2"
    using T by blast
  have t4: "split ?t 2 = chunks 2 ?t"
    using T v by blast
  have t5: "map length (split_trials [example_trial300, example_trial300] 240)
              = [240, 60, 240, 60]"
    using T l example_trial300_tail by blast
  have t2': "length (chunks 2 ?t) = 2"
    using t2 by simp
  have t3': "length (last (chunks 2 ?t)) = 1"
    using t3 t2' by simp
  show ?thesis
    using t1 t2' t3' t4 t5 l example_trial300_tail c by simp
qed

subsection \<open>C3: missing values in the output\<close>

text \<open>
  Claim C3 says that every emitted TrajectorySegment of a successful run contains no
  \<open>NaN\<close>.

  Section 4.3 emits \<open>NaN\<close> for a marker whose host segment has no valid motion in a
  frame, the alignment of section 4.4 transforms positions one by one, and the
  Segmenter drops only trailing chunks in which every value is \<open>NaN\<close>. A trial of two
  frames in which the arm's motion is invalid in the second frame therefore yields a
  segment with a \<open>NaN\<close> for the marker on the arm:
\<close>

theorem dropout_frame_is_emitted_as_NaN:
  "trial_segments (\<lambda>R. True) identity_frame 240 example_catalog dropout_trial =
     Inr [[[At (1, 0, 0), At (- 1, 0, 0), At (0, 1, 0)],
           [At (1, 0, 0), At (- 1, 0, 0), NaN]]]
   \<and> has_nan [[At (1, 0, 0), At (- 1, 0, 0), At (0, 1, 0)],
               [At (1, 0, 0), At (- 1, 0, 0), NaN]]"
  by (simp add: trial_segments_def forward_kinematics_def rotations_ok_def marker_track_def
      marker_position_def motion_valid_def example_catalog_def dropout_trial_def
      steady_motion_def identity3_def identity_frame_def apply_alignment_def
      align_position_def mat_vec_def dot_def vadd_def vsub_def hadamard_def transpose3_def
      split_def chunks.simps all_nan_def has_nan_def upt_rec)

text \<open>
  C3, as amended: for every trial that the pipeline turns into segments, the position
  of a marker in an emitted frame is \<open>NaN\<close> exactly when the motion of the marker's host
  segment is invalid or missing at that frame; the last segment emitted for a trial is
  never all \<open>NaN\<close>; and when every host segment has a valid motion at every frame of the
  trial, no emitted segment contains a \<open>NaN\<close>. (The arithmetic is over the reals, so
  this is about values marked missing, not about floating-point results.)
\<close>

theorem emitted_segments_missing_values:
  assumes "trial_segments ok A M cat kin = Inr segs" and "0 < M"
  shows "(\<forall>f j. f < length (concat segs) \<and> j < length cat \<longrightarrow>
            f < frameCount kin
            \<and> length (concat segs ! f) = length cat
            \<and> (concat segs ! f ! j = NaN) = (\<not> host_valid kin (cat ! j) f))
    \<and> (segs \<noteq> [] \<longrightarrow> \<not> all_nan (last segs))
    \<and> ((\<forall>f j. f < frameCount kin \<and> j < length cat \<longrightarrow> host_valid kin (cat ! j) f) \<longrightarrow>
          list_all (\<lambda>s. \<not> has_nan s) segs)"
proof -
  obtain traj where fk: "forward_kinematics ok cat kin = Inr traj"
    and segs: "segs = split (apply_alignment A traj) M"
    using assms(1) by (auto simp add: trial_segments_def split: sum.splits)
  let ?al = "apply_alignment A traj"
  let ?n = "(length (chunks M ?al) - dropped ?al M) * M"
  have cc: "concat segs = take ?n ?al"
    using assms(2) segs by (simp add: concat_split)
  have len: "length ?al = frameCount kin"
    using forward_kinematics_result [OF fk] by (simp add: apply_alignment_def)
  have p1: "\<forall>f j. f < length (concat segs) \<and> j < length cat \<longrightarrow>
            f < frameCount kin
            \<and> length (concat segs ! f) = length cat
            \<and> (concat segs ! f ! j = NaN) = (\<not> host_valid kin (cat ! j) f)"
  proof (intro allI impI)
    fix f j
    assume h: "f < length (concat segs) \<and> j < length cat"
    then have f: "f < frameCount kin" and fn: "f < ?n"
      using cc len by simp_all
    have "concat segs ! f = ?al ! f"
      using cc fn by simp
    then show "f < frameCount kin
            \<and> length (concat segs ! f) = length cat
            \<and> (concat segs ! f ! j = NaN) = (\<not> host_valid kin (cat ! j) f)"
      using aligned_position [OF fk f, of j A] h f by simp
  qed
  have p2: "segs \<noteq> [] \<longrightarrow> \<not> all_nan (last segs)"
    using segs split_last_valid [of ?al M] by simp
  have p3: "(\<forall>f j. f < frameCount kin \<and> j < length cat \<longrightarrow> host_valid kin (cat ! j) f) \<longrightarrow>
          list_all (\<lambda>s. \<not> has_nan s) segs"
  proof
    assume v: "\<forall>f j. f < frameCount kin \<and> j < length cat \<longrightarrow> host_valid kin (cat ! j) f"
    have "\<not> has_nan s" if s: "s \<in> set segs" for s
    proof
      assume "has_nan s"
      then obtain fr where fr: "fr \<in> set s" and n: "NaN \<in> set fr"
        by (auto simp add: has_nan_def list_ex_iff)
      have "fr \<in> set ?al"
        using assms(2) s fr segs set_split_frames by blast
      then have "NaN \<notin> set fr"
        using all_valid_no_nan [OF fk v] by blast
      then show False
        using n by simp
    qed
    then show "list_all (\<lambda>s. \<not> has_nan s) segs"
      by (simp add: list_all_iff)
  qed
  show ?thesis
    using p1 p2 p3 by blast
qed

text \<open>
  The theorem on the trial with the dropout and on the trial without one.
\<close>

theorem emitted_segments_missing_values_witness:
  "trial_segments (\<lambda>R. True) identity_frame 240 example_catalog dropout_trial =
     Inr [[[At (1, 0, 0), At (- 1, 0, 0), At (0, 1, 0)],
           [At (1, 0, 0), At (- 1, 0, 0), NaN]]]
   \<and> (0::nat) < 240
   \<and> \<not> host_valid dropout_trial (example_catalog ! 2) 1
   \<and> host_valid dropout_trial (example_catalog ! 2) 0
   \<and> \<not> all_nan [[At (1, 0, 0), At (- 1, 0, 0), At (0, 1, 0)],
                   [At (1, 0, 0), At (- 1, 0, 0), NaN]]
   \<and> trial_segments (\<lambda>R. True) identity_frame 240 example_catalog steady_trial =
       Inr [[[At (1, 0, 0), At (- 1, 0, 0), At (0, 1, 0)],
             [At (1, 0, 0), At (- 1, 0, 0), At (0, 1, 0)]]]
   \<and> \<not> has_nan [[At (1, 0, 0), At (- 1, 0, 0), At (0, 1, 0)],
                   [At (1, 0, 0), At (- 1, 0, 0), At (0, 1, 0)]]"
proof -
  have p: "(0::nat) < 240"
    by simp
  note D = emitted_segments_missing_values [OF dropout_segments p]
  note S = emitted_segments_missing_values [OF steady_segments p]
  have lc: "length example_catalog = 3"
    by (simp add: example_catalog_def)
  have A: "\<forall>f j. f < length (concat [[[At (1, 0, 0), At (- 1, 0, 0), At (0, 1, 0)],
                                          [At (1, 0, 0), At (- 1, 0, 0), NaN]]])
                   \<and> j < length example_catalog \<longrightarrow>
            (concat [[[At (1, 0, 0), At (- 1, 0, 0), At (0, 1, 0)],
                      [At (1, 0, 0), At (- 1, 0, 0), NaN]]] ! f ! j = NaN)
              = (\<not> host_valid dropout_trial (example_catalog ! j) f)"
    using D by blast
  have d1: "\<not> host_valid dropout_trial (example_catalog ! 2) 1"
    using A [rule_format, of 1 2] lc by simp
  have d0: "host_valid dropout_trial (example_catalog ! 2) 0"
    using A [rule_format, of 0 2] lc by simp
  have d2: "\<not> all_nan (last [[[At (1, 0, 0), At (- 1, 0, 0), At (0, 1, 0)],
                             [At (1, 0, 0), At (- 1, 0, 0), NaN]]])"
    using D by blast
  have s1: "list_all (\<lambda>s. \<not> has_nan s)
              [[[At (1, 0, 0), At (- 1, 0, 0), At (0, 1, 0)],
                [At (1, 0, 0), At (- 1, 0, 0), At (0, 1, 0)]]]"
    using S steady_trial_valid by blast
  show ?thesis
    using d0 d1 d2 s1 dropout_segments steady_segments by simp
qed

end
